theory Spec2Isabelle
  imports Complex_Main
begin

section \<open>Decimal values\<close>

text \<open>
  The Amount class of \<^verbatim>\<open>amount.js\<close> stores its number in a \<^verbatim>\<open>Value\<close> object
  (\<^verbatim>\<open>XRPValue\<close> or \<^verbatim>\<open>IOUValue\<close>) of the modules \<^verbatim>\<open>./value\<close>, \<^verbatim>\<open>./xrpvalue\<close> and
  \<^verbatim>\<open>./iouvalue\<close>, which wrap a decimal of the library \<^verbatim>\<open>bignumber.js\<close>.  A decimal is
  NaN, an infinity with its sign, or a finite number.
\<close>

text \<open>
  \<open>Dec neg c e\<close> is the decimal \<open>\<plusminus> c * 10 ^ e\<close>; the flag \<open>neg\<close> is what
  \<^verbatim>\<open>isNegative\<close> reads, and a zero carries it as well: \<^verbatim>\<open>_set_value\<close> tests
  \<^verbatim>\<open>value.isZero() && value.isNegative()\<close>.  \<open>Infinity neg\<close> is the infinity of that
  sign.
\<close>

datatype dec = NaN | Infinity bool | Dec bool nat int

datatype vkind = XRP | IOU

record "value" =
  vclass :: vkind
  vnum :: dec

datatype error =
    AssertionError
  | TypeError
  | Invalid_result
  | Divide_by_zero
  | BigNumber_Error
  | More_than_6_decimal_places
  | Exceeding_max_value
  | Exceeding_min_value
  | XRP_XRP_quality_not_allowed
  | Native_amounts_integer_drops

fun ndigits :: "nat \<Rightarrow> nat" where
  "ndigits n = (if n < 10 then 1 else Suc (ndigits (n div 10)))"

declare ndigits.simps [simp del]

text \<open>The quotient \<open>p / q\<close> rounded to the nearest whole number, a half going up.\<close>

definition round_div :: "nat \<Rightarrow> nat \<Rightarrow> nat" where
  "round_div p q = (2 * p + q) div (2 * q)"

definition zero_dec :: dec where
  "zero_dec = Dec False 0 (- 100)"

text \<open>
  A positive coefficient brought to exactly 16 digits: a longer one is cut toward zero
  (\<open>down\<close>) or rounded half up, a shorter one is padded with zeros.
\<close>

definition norm16 :: "bool \<Rightarrow> nat \<Rightarrow> int \<Rightarrow> nat \<times> int" where
  "norm16 down c e =
     (let d = ndigits c
      in if 16 < d then
           (let r = (if down then c div 10 ^ (d - 16) else round_div c (10 ^ (d - 16)))
            in if r = 10 ^ 16 then (10 ^ 15, e + int (d - 16) + 1)
               else (r, e + int (d - 16)))
         else (c * 10 ^ (16 - d), e - int (16 - d)))"

text \<open>
  Modelled from the spec: the form in which an issued value (\<^verbatim>\<open>IOUValue\<close>, module
  \<^verbatim>\<open>./iouvalue\<close>) keeps a finite number: 16 significant digits.  The constructor and
  \<^verbatim>\<open>_canonicalize\<close> round half up, the rounding mode of the module; \<^verbatim>\<open>parse_value\<close>
  asks for \<^verbatim>\<open>Value.getBNRoundDown()\<close>, the cut toward zero.  The model writes a
  non-zero number with a coefficient of exactly 16 digits and zero with the exponent
  -100; a zero keeps its sign.
\<close>

definition canon_iou :: "bool \<Rightarrow> bool \<Rightarrow> nat \<Rightarrow> int \<Rightarrow> dec" where
  "canon_iou down neg c e =
     (if c = 0 then Dec neg 0 (- 100)
      else (case norm16 down c e of (c', e') \<Rightarrow> Dec neg c' e'))"

text \<open>
  Modelled from the spec: the form in which a native value (\<^verbatim>\<open>XRPValue\<close>, module
  \<^verbatim>\<open>./xrpvalue\<close>) keeps a finite number: a number of XRP with six decimal places, cut
  toward zero, that is a whole number of drops, written \<open>drops * 10 ^ - 6\<close>.
\<close>

definition canon_xrp :: "bool \<Rightarrow> nat \<Rightarrow> int \<Rightarrow> dec" where
  "canon_xrp neg c e =
     (let drops = (if 0 \<le> e + 6 then c * 10 ^ nat (e + 6) else c div 10 ^ nat (- e - 6))
      in if drops = 0 then Dec neg 0 (- 100) else Dec neg drops (- 6))"

text \<open>
  Modelled from the spec: \<^verbatim>\<open>_canonicalize\<close>, which every arithmetic method of \<^verbatim>\<open>Value\<close>
  applies to its result: NaN raises the error \<open>Invalid result\<close>, an infinity stays, and a
  finite number is put in the form of the receiver's class.
\<close>

definition canonicalize :: "vkind \<Rightarrow> dec \<Rightarrow> error + value" where
  "canonicalize k d =
     (case d of
        NaN \<Rightarrow> Inl Invalid_result
      | Infinity s \<Rightarrow> Inr \<lparr>vclass = k, vnum = Infinity s\<rparr>
      | Dec neg c e \<Rightarrow>
          Inr \<lparr>vclass = k,
               vnum = (case k of XRP \<Rightarrow> canon_xrp neg c e | IOU \<Rightarrow> canon_iou False neg c e)\<rparr>)"

fun dec_exp :: "dec \<Rightarrow> int" where
  "dec_exp (Dec s c e) = e"
| "dec_exp d = 0"

fun dec_coef :: "dec \<Rightarrow> nat" where
  "dec_coef (Dec s c e) = c"
| "dec_coef d = 0"

text \<open>The signed coefficient of a finite decimal at a given (smaller or equal) exponent.\<close>

fun scaled :: "dec \<Rightarrow> int \<Rightarrow> int" where
  "scaled (Dec neg c e0) e = (if neg then - int c else int c) * 10 ^ nat (e0 - e)"
| "scaled d e = 0"

text \<open>
  Modelled from the spec: the arithmetic of the decimal library on two decimals, before
  \<^verbatim>\<open>_canonicalize\<close>.  Sums and products are exact.  A quotient is rounded half up at 40
  decimal places, the precision that the modules configure.  NaN, the product of zero
  and an infinity, the quotient of two infinities or of two zeros, and the sum of two
  opposite infinities are NaN; a non-zero number divided by zero is an infinity.
\<close>

fun plus_dec :: "dec \<Rightarrow> dec \<Rightarrow> dec" where
  "plus_dec (Dec s c e) (Dec t d f) =
     (let m = min e f;
          x = scaled (Dec s c e) m + scaled (Dec t d f) m
      in Dec (x < 0 \<or> (x = 0 \<and> s \<and> t)) (nat \<bar>x\<bar>) m)"
| "plus_dec (Infinity s) (Infinity t) = (if s = t then Infinity s else NaN)"
| "plus_dec (Infinity s) (Dec t d f) = Infinity s"
| "plus_dec (Dec s c e) (Infinity t) = Infinity t"
| "plus_dec x y = NaN"

fun times_dec :: "dec \<Rightarrow> dec \<Rightarrow> dec" where
  "times_dec (Dec s c e) (Dec t d f) = Dec (s \<noteq> t) (c * d) (e + f)"
| "times_dec (Infinity s) (Infinity t) = Infinity (s \<noteq> t)"
| "times_dec (Infinity s) (Dec t d f) = (if d = 0 then NaN else Infinity (s \<noteq> t))"
| "times_dec (Dec s c e) (Infinity t) = (if c = 0 then NaN else Infinity (s \<noteq> t))"
| "times_dec x y = NaN"

definition quotient40 :: "nat \<Rightarrow> int \<Rightarrow> nat \<Rightarrow> int \<Rightarrow> nat" where
  "quotient40 c e d f =
     (let k = e - f + 40
      in if 0 \<le> k then round_div (c * 10 ^ nat k) d
         else round_div c (d * 10 ^ nat (- k)))"

fun div_dec :: "dec \<Rightarrow> dec \<Rightarrow> dec" where
  "div_dec (Dec s c e) (Dec t d f) =
     (if d = 0 then (if c = 0 then NaN else Infinity (s \<noteq> t))
      else Dec (s \<noteq> t) (quotient40 c e d f) (- 40))"
| "div_dec (Infinity s) (Infinity t) = NaN"
| "div_dec (Infinity s) (Dec t d f) = Infinity (s \<noteq> t)"
| "div_dec (Dec s c e) (Infinity t) = Dec (s \<noteq> t) 0 0"
| "div_dec x y = NaN"

text \<open>\<^verbatim>\<open>comparedTo\<close> of the library: \<open>None\<close> stands for the null that a NaN operand gives.\<close>

fun compare_dec :: "dec \<Rightarrow> dec \<Rightarrow> int option" where
  "compare_dec (Dec s c e) (Dec t d f) =
     (let m = min e f;
          x = scaled (Dec s c e) m;
          y = scaled (Dec t d f) m
      in Some (if x < y then - 1 else if x = y then 0 else 1))"
| "compare_dec (Infinity s) (Infinity t) = Some (if s = t then 0 else if s then - 1 else 1)"
| "compare_dec (Infinity s) (Dec t d f) = Some (if s then - 1 else 1)"
| "compare_dec (Dec s c e) (Infinity t) = Some (if t then 1 else - 1)"
| "compare_dec x y = None"

text \<open>
  Modelled from the spec: the methods of \<^verbatim>\<open>Value\<close> (module \<^verbatim>\<open>./value\<close>) and of its two
  classes.  \<^verbatim>\<open>negate\<close> changes the sign, also that of zero.  \<^verbatim>\<open>abs\<close> is applied by
  \<^verbatim>\<open>amount.js\<close> only to values that are not NaN.  \<^verbatim>\<open>add\<close> asserts that both operands are
  of one class.  \<^verbatim>\<open>multiply\<close> and \<^verbatim>\<open>divide\<close> take an operand of class \<^verbatim>\<open>XRPValue\<close> in
  drops: they multiply it by \<open>10 ^ 6\<close> and wrap it in the receiver's class.  \<^verbatim>\<open>divide\<close>
  raises \<open>divide by zero\<close> at a zero divisor.  \<^verbatim>\<open>invert\<close> is the quotient of 1 and the
  value; the inverse of zero is an infinity.
\<close>

definition isNaN :: "value \<Rightarrow> bool" where
  "isNaN v = (vnum v = NaN)"

definition isZero :: "value \<Rightarrow> bool" where
  "isZero v = (case vnum v of Dec s c e \<Rightarrow> c = 0 | _ \<Rightarrow> False)"

definition isFinite :: "value \<Rightarrow> bool" where
  "isFinite v = (case vnum v of Dec s c e \<Rightarrow> True | _ \<Rightarrow> False)"

definition isNegative :: "value \<Rightarrow> bool" where
  "isNegative v = (case vnum v of NaN \<Rightarrow> False | Infinity s \<Rightarrow> s | Dec neg c e \<Rightarrow> neg)"

definition Value_negate :: "value \<Rightarrow> value" where
  "Value_negate v =
     (case vnum v of
        NaN \<Rightarrow> v
      | Infinity s \<Rightarrow> v\<lparr>vnum := Infinity (\<not> s)\<rparr>
      | Dec neg c e \<Rightarrow> v\<lparr>vnum := Dec (\<not> neg) c e\<rparr>)"

definition Value_abs :: "value \<Rightarrow> value" where
  "Value_abs v =
     (case vnum v of
        NaN \<Rightarrow> v
      | Infinity s \<Rightarrow> v\<lparr>vnum := Infinity False\<rparr>
      | Dec neg c e \<Rightarrow> v\<lparr>vnum := Dec False c e\<rparr>)"

definition Value_add :: "value \<Rightarrow> value \<Rightarrow> error + value" where
  "Value_add a b =
     (if vclass a \<noteq> vclass b then Inl AssertionError
      else canonicalize (vclass a) (plus_dec (vnum a) (vnum b)))"

definition in_drops :: "vkind \<Rightarrow> value \<Rightarrow> value" where
  "in_drops k b =
     (if vclass b = XRP then
        \<lparr>vclass = k,
         vnum = (case vnum b of
                   Dec neg c e \<Rightarrow>
                     (case k of XRP \<Rightarrow> canon_xrp neg c (e + 6)
                      | IOU \<Rightarrow> canon_iou False neg c (e + 6))
                 | d \<Rightarrow> d)\<rparr>
      else b)"

definition Value_multiply :: "value \<Rightarrow> value \<Rightarrow> error + value" where
  "Value_multiply a b =
     canonicalize (vclass a) (times_dec (vnum a) (vnum (in_drops (vclass a) b)))"

definition Value_divide :: "value \<Rightarrow> value \<Rightarrow> error + value" where
  "Value_divide a b =
     (let divisor = in_drops (vclass a) b
      in if isZero divisor then Inl Divide_by_zero
         else canonicalize (vclass a) (div_dec (vnum a) (vnum divisor)))"

definition Value_invert :: "value \<Rightarrow> error + value" where
  "Value_invert a = canonicalize (vclass a) (div_dec (Dec False 1 0) (vnum a))"

definition comparedTo :: "value \<Rightarrow> value \<Rightarrow> int option" where
  "comparedTo a b = compare_dec (vnum a) (vnum b)"

definition greaterThan_v :: "value \<Rightarrow> value \<Rightarrow> bool" where
  "greaterThan_v a b = (comparedTo a b = Some 1)"

definition lessThan_v :: "value \<Rightarrow> value \<Rightarrow> bool" where
  "lessThan_v a b = (comparedTo a b = Some (- 1))"

definition Value_equals :: "value \<Rightarrow> value \<Rightarrow> bool" where
  "Value_equals a b = (comparedTo a b = Some 0)"

text \<open>
  The constructors \<^verbatim>\<open>new XRPValue(x)\<close> and \<^verbatim>\<open>new IOUValue(x)\<close> at a number
  \<open>m * 10 ^ e\<close> (for \<^verbatim>\<open>XRPValue\<close> one of at most six decimal places, which the constructor
  requires).
\<close>

definition XRPValue :: "int \<Rightarrow> int \<Rightarrow> value" where
  "XRPValue m e = \<lparr>vclass = XRP, vnum = canon_xrp (m < 0) (nat \<bar>m\<bar>) e\<rparr>"

definition IOUValue :: "int \<Rightarrow> int \<Rightarrow> value" where
  "IOUValue m e = \<lparr>vclass = IOU, vnum = canon_iou False (m < 0) (nat \<bar>m\<bar>) e\<rparr>"

text \<open>
  The number a decimal stands for.  An infinity is beyond every number; it is given the
  magnitude \<open>10 ^ 100\<close>, above every limit that the module compares a value with.
\<close>

definition pow10 :: "int \<Rightarrow> rat" where
  "pow10 e = (if 0 \<le> e then 10 ^ nat e else 1 / 10 ^ nat (- e))"

fun rat_of_dec :: "dec \<Rightarrow> rat" where
  "rat_of_dec NaN = 0"
| "rat_of_dec (Infinity neg) = (if neg then - (10 ^ 100) else 10 ^ 100)"
| "rat_of_dec (Dec neg c e) = (if neg then - of_nat c else of_nat c) * pow10 e"

definition magnitude :: "value \<Rightarrow> rat" where
  "magnitude v = \<bar>rat_of_dec (vnum v)\<bar>"

text \<open>
  Rounding in the words of the description: \<open>round_at k r\<close> is \<open>r\<close> rounded to a whole
  multiple of \<open>10 ^ k\<close>, a half going away from zero, and \<open>cut_at k r\<close> is \<open>r\<close> cut toward
  zero to such a multiple.
\<close>

definition round_at :: "int \<Rightarrow> rat \<Rightarrow> rat" where
  "round_at k r = sgn r * of_int \<lfloor>\<bar>r\<bar> / pow10 k + 1 / 2\<rfloor> * pow10 k"

definition cut_at :: "int \<Rightarrow> rat \<Rightarrow> rat" where
  "cut_at k r = sgn r * of_int \<lfloor>\<bar>r\<bar> / pow10 k\<rfloor> * pow10 k"


section \<open>Currency and issuer\<close>

text \<open>
  Modelled from the spec: the classes \<^verbatim>\<open>Currency\<close> (module \<^verbatim>\<open>./currency\<close>) and \<^verbatim>\<open>UInt160\<close>
  (module \<^verbatim>\<open>./uint160\<close>).  A currency is the native sentinel, a three-character code or
  a 160-bit code carrying interest parameters; a freshly constructed currency or
  identifier is not valid.
\<close>

datatype currency = Currency_invalid | Currency_native | Currency_iso string
  | Currency_demurrage string

datatype uint160 = UInt160_invalid | UInt160 nat

definition Currency_is_native :: "currency \<Rightarrow> bool" where
  "Currency_is_native c = (c = Currency_native)"

definition Currency_is_valid :: "currency \<Rightarrow> bool" where
  "Currency_is_valid c = (c \<noteq> Currency_invalid)"

definition Currency_has_interest :: "currency \<Rightarrow> bool" where
  "Currency_has_interest c = (case c of Currency_demurrage h \<Rightarrow> True | _ \<Rightarrow> False)"

section \<open>Amount\<close>

text \<open>A step that may throw, followed by another.\<close>

definition and_then :: "error + 'a \<Rightarrow> ('a \<Rightarrow> error + 'b) \<Rightarrow> error + 'b" where
  "and_then r f = (case r of Inl e \<Rightarrow> Inl e | Inr x \<Rightarrow> f x)"

record amount =
  amt_value :: "value"
  amt_is_native :: bool
  amt_currency :: currency
  amt_issuer :: uint160

text \<open>
  The constructor \<^verbatim>\<open>function Amount(value = new XRPValue(NaN))\<close> asserts that its argument
  is a \<^verbatim>\<open>Value\<close>.  The default applies only when no argument is passed.
\<close>

datatype ctor_arg = Arg_undefined | Arg_Value "value" | Arg_not_a_Value

definition XRPValue_NaN :: "value" where
  "XRPValue_NaN = \<lparr>vclass = XRP, vnum = NaN\<rparr>"

definition IOUValue_NaN :: "value" where
  "IOUValue_NaN = \<lparr>vclass = IOU, vnum = NaN\<rparr>"

definition Amount_with :: "value \<Rightarrow> amount" where
  "Amount_with v =
     \<lparr>amt_value = v, amt_is_native = True,
      amt_currency = Currency_invalid, amt_issuer = UInt160_invalid\<rparr>"

definition new_Amount_arg :: "ctor_arg \<Rightarrow> error + amount" where
  "new_Amount_arg arg =
     (case arg of
        Arg_undefined \<Rightarrow> Inr (Amount_with XRPValue_NaN)
      | Arg_Value v \<Rightarrow> Inr (Amount_with v)
      | Arg_not_a_Value \<Rightarrow> Inl AssertionError)"

text \<open>\<^verbatim>\<open>new Amount()\<close>, which cannot fail.\<close>

definition new_Amount :: amount where
  "new_Amount = Amount_with XRPValue_NaN"

definition Amount_NaN :: amount where
  "Amount_NaN = new_Amount\<lparr>amt_value := IOUValue_NaN\<rparr>"

text \<open>The constants of the module.\<close>

definition MAX_XRP_VALUE :: "value" where
  "MAX_XRP_VALUE = XRPValue 1 11"

definition MAX_IOU_VALUE :: "value" where
  "MAX_IOU_VALUE = IOUValue 9999999999999999 80"

definition MIN_IOU_VALUE :: "value" where
  "MIN_IOU_VALUE = IOUValue 1000000000000000 (- 96)"

definition bi_xns_unit :: "value" where
  "bi_xns_unit = IOUValue 1 6"

definition is_valid :: "amount \<Rightarrow> bool" where
  "is_valid a = (\<not> isNaN (amt_value a))"

definition is_zero :: "amount \<Rightarrow> bool" where
  "is_zero a = isZero (amt_value a)"

definition is_negative :: "amount \<Rightarrow> bool" where
  "is_negative a = isNegative (amt_value a)"

definition is_native :: "amount \<Rightarrow> bool" where
  "is_native a = amt_is_native a"

definition is_comparable :: "amount \<Rightarrow> amount \<Rightarrow> bool" where
  "is_comparable a v = (is_valid a \<and> is_valid v \<and> amt_is_native a = amt_is_native v)"

text \<open>
  \<^verbatim>\<open>_check_limits\<close>; the global flag \<^verbatim>\<open>Amount.strict_mode\<close> is the argument \<open>strict\<close> of
  every function that reads it.
\<close>

definition check_limits :: "bool \<Rightarrow> amount \<Rightarrow> error + amount" where
  "check_limits strict a =
     (if \<not> strict then Inr a
      else if isNaN (amt_value a) \<or> isZero (amt_value a) then Inr a
      else
        (let absval = Value_abs (amt_value a)
         in if amt_is_native a then
              (if greaterThan_v absval MAX_XRP_VALUE then Inl Exceeding_max_value
               else Inr a)
            else
              (if lessThan_v absval MIN_IOU_VALUE then Inl Exceeding_min_value
               else if greaterThan_v absval MAX_IOU_VALUE then Inl Exceeding_max_value
               else Inr a)))"

text \<open>\<^verbatim>\<open>_set_value\<close>.\<close>

definition set_value :: "bool \<Rightarrow> amount \<Rightarrow> value \<Rightarrow> error + amount" where
  "set_value strict a v =
     check_limits strict
       (a\<lparr>amt_value := (if isZero v \<and> isNegative v then Value_negate v else v)\<rparr>)"

definition copyTo :: "amount \<Rightarrow> amount \<Rightarrow> bool \<Rightarrow> amount" where
  "copyTo this d negate =
     d\<lparr>amt_value := (if negate then Value_negate (amt_value this) else amt_value this),
       amt_is_native := amt_is_native this,
       amt_currency := amt_currency this,
       amt_issuer := amt_issuer this\<rparr>"

definition clone :: "amount \<Rightarrow> bool \<Rightarrow> amount" where
  "clone this negate = copyTo this new_Amount negate"

definition copy :: "bool \<Rightarrow> amount \<Rightarrow> value \<Rightarrow> error + amount" where
  "copy strict this v = set_value strict (clone this False) v"

text \<open>
  \<^verbatim>\<open>Amount.from_json(j)\<close> at an argument that is an Amount: \<^verbatim>\<open>parse_json\<close> takes the branch
  \<^verbatim>\<open>j instanceof Amount\<close> and copies it into a new Amount.
\<close>

definition from_json_Amount :: "amount \<Rightarrow> amount" where
  "from_json_Amount j = copyTo j new_Amount False"

definition Amount_negate :: "amount \<Rightarrow> amount" where
  "Amount_negate this = clone this True"

definition Amount_add :: "bool \<Rightarrow> amount \<Rightarrow> amount \<Rightarrow> error + amount" where
  "Amount_add strict this addend =
     (let addendAmount = from_json_Amount addend
      in if \<not> is_comparable this addendAmount then Inr new_Amount
         else and_then (Value_add (amt_value this) (amt_value addendAmount))
                (copy strict this))"

definition Amount_subtract :: "bool \<Rightarrow> amount \<Rightarrow> amount \<Rightarrow> error + amount" where
  "Amount_subtract strict this subtrahend =
     Amount_add strict this (Amount_negate (from_json_Amount subtrahend))"

definition Amount_multiply :: "bool \<Rightarrow> amount \<Rightarrow> amount \<Rightarrow> error + amount" where
  "Amount_multiply strict this multiplicand =
     (let multiplicandAmount = from_json_Amount multiplicand
      in and_then (Value_multiply (amt_value this) (amt_value multiplicandAmount))
           (copy strict this))"

definition Amount_divide :: "bool \<Rightarrow> amount \<Rightarrow> amount \<Rightarrow> error + amount" where
  "Amount_divide strict this divisor =
     (let divisorAmount = from_json_Amount divisor
      in and_then (Value_divide (amt_value this) (amt_value divisorAmount))
           (copy strict this))"

text \<open>\<^verbatim>\<open>compareTo\<close> returns an Amount for operands that are not comparable and the
  number of \<^verbatim>\<open>comparedTo\<close> otherwise.\<close>

datatype compare_result = Compare_Amount amount | Compare_number "int option"

definition compareTo :: "amount \<Rightarrow> amount \<Rightarrow> compare_result" where
  "compareTo this to =
     (let toAmount = from_json_Amount to
      in if \<not> is_comparable this toAmount then Compare_Amount new_Amount
         else Compare_number (comparedTo (amt_value this) (amt_value toAmount)))"

text \<open>\<^verbatim>\<open>equals\<close> at an operand that is an Amount.\<close>

definition equals :: "amount \<Rightarrow> amount \<Rightarrow> bool \<Rightarrow> bool" where
  "equals this d ignore_issuer =
     (is_valid this \<and> is_valid d
      \<and> amt_is_native this = amt_is_native d
      \<and> Value_equals (amt_value this) (amt_value d)
      \<and> (amt_is_native this
           \<or> (amt_currency this = amt_currency d
               \<and> (ignore_issuer \<or> amt_issuer this = amt_issuer d))))"

section \<open>Strings\<close>

definition is_digit :: "char \<Rightarrow> bool" where
  "is_digit c = (c \<in> set ''0123456789'')"

definition all_digits :: "string \<Rightarrow> bool" where
  "all_digits s = (s \<noteq> [] \<and> list_all is_digit s)"

definition digit_val :: "char \<Rightarrow> nat" where
  "digit_val c = of_char c - 48"

definition nat_of_digits :: "string \<Rightarrow> nat" where
  "nat_of_digits s = foldl (\<lambda>n c. 10 * n + digit_val c) 0 s"

definition not_e :: "char \<Rightarrow> bool" where
  "not_e c = (c \<noteq> CHR ''e'' \<and> c \<noteq> CHR ''E'')"

definition not_dot :: "char \<Rightarrow> bool" where
  "not_dot c = (c \<noteq> CHR ''.'')"

definition not_slash :: "char \<Rightarrow> bool" where
  "not_slash c = (c \<noteq> CHR ''/'')"

text \<open>The exponent part of a decimal literal: empty, or \<open>e\<close>, an optional sign and digits.\<close>

definition exponent_part :: "string \<Rightarrow> int option" where
  "exponent_part ex =
     (case ex of
        [] \<Rightarrow> Some 0
      | c # r \<Rightarrow>
          (case r of
             [] \<Rightarrow> None
           | s # d \<Rightarrow>
               if s = CHR ''-'' then (if all_digits d then Some (- int (nat_of_digits d)) else None)
               else if s = CHR ''+'' then (if all_digits d then Some (int (nat_of_digits d)) else None)
               else (if all_digits r then Some (int (nat_of_digits r)) else None)))"

text \<open>The mantissa part: \<open>digits\<close>, \<open>digits.\<close>, \<open>digits.digits\<close> or \<open>.digits\<close>; the result is
  the digits without the point and the number of digits after the point.\<close>

definition mantissa_part :: "string \<Rightarrow> (nat \<times> nat) option" where
  "mantissa_part m =
     (let ip = takeWhile not_dot m; fp = dropWhile not_dot m
      in if fp = [] then (if all_digits ip then Some (nat_of_digits ip, 0) else None)
         else if all_digits ip \<and> (tl fp = [] \<or> all_digits (tl fp))
           then Some (nat_of_digits (ip @ tl fp), length (tl fp))
         else if ip = [] \<and> all_digits (tl fp)
           then Some (nat_of_digits (tl fp), length (tl fp))
         else None)"

definition unsigned_decimal :: "string \<Rightarrow> (nat \<times> int) option" where
  "unsigned_decimal u =
     (case mantissa_part (takeWhile not_e u) of
        None \<Rightarrow> None
      | Some (m, k) \<Rightarrow>
          (case exponent_part (dropWhile not_e u) of
             None \<Rightarrow> None
           | Some e \<Rightarrow> Some (m, e - int k)))"

text \<open>
  Modelled from the spec: the decimal strings that the constructors of \<^verbatim>\<open>XRPValue\<close> and
  \<^verbatim>\<open>IOUValue\<close> accept: an optional minus sign and a decimal literal with an optional
  exponent, or one of the words \<open>Infinity\<close> and \<open>NaN\<close>.  At any other string the
  decimal library raises an error (\<open>None\<close>).  The flag of a literal tells a minus sign,
  also in front of zero.
\<close>

definition parse_decimal :: "string \<Rightarrow> (bool \<times> nat \<times> int) option" where
  "parse_decimal s =
     (case s of
        [] \<Rightarrow> None
      | c # r \<Rightarrow>
          if c = CHR ''-'' then map_option (\<lambda>(m, e). (True, m, e)) (unsigned_decimal r)
          else map_option (\<lambda>(m, e). (False, m, e)) (unsigned_decimal s))"

definition parse_number :: "string \<Rightarrow> dec option" where
  "parse_number s =
     (if s = ''NaN'' \<or> s = ''-NaN'' then Some NaN
      else if s = ''Infinity'' then Some (Infinity False)
      else if s = ''-Infinity'' then Some (Infinity True)
      else map_option (\<lambda>(neg, m, e). Dec neg m e) (parse_decimal s))"

text \<open>
  \<^verbatim>\<open>new XRPValue(s)\<close> at a string: the number is kept as it is, and the constructor raises
  an error when it has more than six decimal places.
\<close>

definition XRPValue_of_string :: "string \<Rightarrow> error + value" where
  "XRPValue_of_string s =
     (case parse_number s of
        None \<Rightarrow> Inl BigNumber_Error
      | Some (Dec neg m e) \<Rightarrow>
          if e < - 6 \<and> m mod 10 ^ nat (- e - 6) \<noteq> 0 then Inl More_than_6_decimal_places
          else Inr \<lparr>vclass = XRP, vnum = canon_xrp neg m e\<rparr>
      | Some d \<Rightarrow> Inr \<lparr>vclass = XRP, vnum = d\<rparr>)"

text \<open>\<^verbatim>\<open>new IOUValue(s, Value.getBNRoundDown())\<close> at a string.\<close>

definition IOUValue_of_string :: "string \<Rightarrow> error + value" where
  "IOUValue_of_string s =
     (case parse_number s of
        None \<Rightarrow> Inl BigNumber_Error
      | Some (Dec neg m e) \<Rightarrow> Inr \<lparr>vclass = IOU, vnum = canon_iou True neg m e\<rparr>
      | Some d \<Rightarrow> Inr \<lparr>vclass = IOU, vnum = d\<rparr>)"

text \<open>
  The global function \<^verbatim>\<open>isNaN\<close> of JavaScript at a string: the string is converted by the
  grammar of numeric string literals (white space around it is dropped; the empty string
  is 0; \<open>0x\<close>, \<open>0o\<close> and \<open>0b\<close> literals carry no sign; \<open>Infinity\<close> is a number).  Strings
  are byte strings here, so the white space is the ASCII white space.
\<close>

definition is_space :: "char \<Rightarrow> bool" where
  "is_space c = (of_char c \<in> {9, 10, 11, 12, 13, 32 :: nat})"

definition trim :: "string \<Rightarrow> string" where
  "trim s = rev (dropWhile is_space (rev (dropWhile is_space s)))"

definition radix_digits :: "string \<Rightarrow> string \<Rightarrow> bool" where
  "radix_digits allowed d = (d \<noteq> [] \<and> list_all (\<lambda>c. c \<in> set allowed) d)"

definition radix_literal :: "string \<Rightarrow> bool option" where
  "radix_literal t =
     (case t of
        c # x # d \<Rightarrow>
          if c = CHR ''0'' \<and> (x = CHR ''x'' \<or> x = CHR ''X'')
            then Some (radix_digits ''0123456789abcdefABCDEF'' d)
          else if c = CHR ''0'' \<and> (x = CHR ''o'' \<or> x = CHR ''O'')
            then Some (radix_digits ''01234567'' d)
          else if c = CHR ''0'' \<and> (x = CHR ''b'' \<or> x = CHR ''B'')
            then Some (radix_digits ''01'' d)
          else None
      | _ \<Rightarrow> None)"

definition strip_sign :: "string \<Rightarrow> string" where
  "strip_sign t =
     (case t of
        [] \<Rightarrow> []
      | c # r \<Rightarrow> if c = CHR ''+'' \<or> c = CHR ''-'' then r else t)"

definition js_isNaN :: "string \<Rightarrow> bool" where
  "js_isNaN s =
     (let t = trim s
      in if t = [] then False
         else (case radix_literal t of
                 Some ok \<Rightarrow> \<not> ok
               | None \<Rightarrow>
                   (let u = strip_sign t
                    in if u = ''Infinity'' then False
                       else unsigned_decimal u = None)))"

section \<open>Parsing amounts\<close>

text \<open>
  What the module takes from outside: the parsers \<^verbatim>\<open>Currency.from_json\<close> and
  \<^verbatim>\<open>UInt160.from_json\<close> at a string, and the interest factor of a currency at a
  reference date as the issued value \<^verbatim>\<open>new IOUValue(interest.toString())\<close>, which
  \<^verbatim>\<open>get_interest_at\<close> computes in floating point.
\<close>

record env =
  Currency_from_json :: "string \<Rightarrow> currency"
  UInt160_from_json :: "string \<Rightarrow> uint160"
  interest_value :: "currency \<Rightarrow> int \<Rightarrow> value"

text \<open>
  The arguments of \<^verbatim>\<open>parse_json\<close> that are modelled: a string, \<^verbatim>\<open>null\<close>, an Amount, an
  object that is not an Amount and has no own property \<^verbatim>\<open>value\<close> (such as an instance of
  \<^verbatim>\<open>Value\<close>, whose number is not a property of that name), and a value of any type
  besides string, number and object.
\<close>

datatype json = J_string string | J_null | J_Amount amount | J_object_without_value
  | J_other_type

text \<open>The match of \<^verbatim>\<open>/^([^/]+)\/([^/]+)(?:\/(.+))?$/\<close>.\<close>

definition line_terminator :: "char \<Rightarrow> bool" where
  "line_terminator c = (of_char c \<in> {10, 13 :: nat})"

definition match_slashes :: "string \<Rightarrow> (string \<times> string \<times> string option) option" where
  "match_slashes j =
     (let g1 = takeWhile not_slash j; r1 = dropWhile not_slash j
      in if g1 = [] \<or> r1 = [] then None
         else
           (let g2 = takeWhile not_slash (tl r1); r2 = dropWhile not_slash (tl r1)
            in if g2 = [] then None
               else if r2 = [] then Some (g1, g2, None)
               else if tl r2 \<noteq> [] \<and> \<not> list_ex line_terminator (tl r2)
                 then Some (g1, g2, Some (tl r2))
               else None))"

definition parse_native :: "bool \<Rightarrow> amount \<Rightarrow> string \<Rightarrow> error + amount" where
  "parse_native strict this j =
     (if j \<noteq> [] \<and> \<not> js_isNaN j then
        (if CHR ''.'' \<in> set j then Inl Native_amounts_integer_drops
         else
           and_then (XRPValue_of_string j)
             (\<lambda>v. and_then (Value_divide v bi_xns_unit)
                    (set_value strict (this\<lparr>amt_is_native := True\<rparr>))))
      else set_value strict this IOUValue_NaN)"

definition parse_value :: "bool \<Rightarrow> amount \<Rightarrow> string \<Rightarrow> error + amount" where
  "parse_value strict this j =
     and_then (IOUValue_of_string j) (set_value strict (this\<lparr>amt_is_native := False\<rparr>))"

definition parse_json :: "env \<Rightarrow> bool \<Rightarrow> amount \<Rightarrow> json \<Rightarrow> error + amount" where
  "parse_json env strict this j =
     (case j of
        J_string s \<Rightarrow>
          (case match_slashes s of
             Some (m1, m2, m3) \<Rightarrow>
               parse_value strict
                 (this\<lparr>amt_currency := Currency_from_json env m2,
                        amt_issuer := (case m3 of Some i \<Rightarrow> UInt160_from_json env i
                                       | None \<Rightarrow> UInt160_from_json env ''1'')\<rparr>)
                 m1
           | None \<Rightarrow>
               (case parse_native strict this s of
                  Inl e \<Rightarrow> Inl e
                | Inr a \<Rightarrow> Inr (a\<lparr>amt_currency := Currency_from_json env ''0'',
                                   amt_issuer := UInt160_from_json env ''0''\<rparr>)))
      | J_null \<Rightarrow> Inr this
      | J_Amount x \<Rightarrow> Inr (copyTo x this False)
      | J_object_without_value \<Rightarrow> Inr this
      | J_other_type \<Rightarrow> set_value strict this IOUValue_NaN)"

definition from_json :: "env \<Rightarrow> bool \<Rightarrow> json \<Rightarrow> error + amount" where
  "from_json env strict j = parse_json env strict new_Amount j"

section \<open>Ratios\<close>

text \<open>
  The option \<^verbatim>\<open>reference_date\<close> is \<open>None\<close> when absent and \<open>Some d\<close> for the number \<open>d\<close> of
  seconds of the Ripple epoch; the tests \<^verbatim>\<open>if (options.reference_date)\<close> take the number 0
  as absent.
\<close>

definition applyInterest :: "env \<Rightarrow> bool \<Rightarrow> amount \<Rightarrow> int \<Rightarrow> error + amount" where
  "applyInterest env strict this referenceDate =
     (if \<not> Currency_has_interest (amt_currency this) then Inr this
      else and_then (Value_multiply (amt_value this)
                      (interest_value env (amt_currency this) referenceDate))
             (copy strict this))"

text \<open>
  \<^verbatim>\<open>multiply\<close> at any argument of \<^verbatim>\<open>parse_json\<close>.
\<close>

definition Amount_multiply_json :: "env \<Rightarrow> bool \<Rightarrow> amount \<Rightarrow> json \<Rightarrow> error + amount" where
  "Amount_multiply_json env strict this multiplicand =
     (case from_json env strict multiplicand of
        Inl e \<Rightarrow> Inl e
      | Inr multiplicandAmount \<Rightarrow>
          and_then (Value_multiply (amt_value this) (amt_value multiplicandAmount))
            (copy strict this))"

text \<open>
  \<^verbatim>\<open>_set_value\<close> calls \<^verbatim>\<open>value.isZero()\<close> on its argument.  An Amount has a method
  \<^verbatim>\<open>is_zero\<close> and no method \<^verbatim>\<open>isZero\<close>, so at an Amount the call raises a TypeError.
\<close>

datatype set_value_arg = Is_Value "value" | Is_Amount amount

definition set_value_any :: "bool \<Rightarrow> amount \<Rightarrow> set_value_arg \<Rightarrow> error + amount" where
  "set_value_any strict this arg =
     (case arg of Is_Value v \<Rightarrow> set_value strict this v | Is_Amount x \<Rightarrow> Inl TypeError)"

text \<open>
  \<^verbatim>\<open>ratio_human\<close> at a denominator that is an Amount.  The invalid results are built by
  \<^verbatim>\<open>new Amount(NaN)\<close>, where \<^verbatim>\<open>NaN\<close> is the number and not a \<^verbatim>\<open>Value\<close>; the numerator is
  scaled by \<^verbatim>\<open>numerator._set_value(numerator.multiply(bi_xns_unit))\<close>, where
  \<^verbatim>\<open>bi_xns_unit\<close> is an \<^verbatim>\<open>IOUValue\<close> and the product is an Amount.
\<close>

definition ratio_human :: "env \<Rightarrow> bool \<Rightarrow> amount \<Rightarrow> amount \<Rightarrow> int option \<Rightarrow> error + amount"
  where
  "ratio_human env strict this denom reference_date =
     (let numerator = clone this False;
          denominator = from_json_Amount denom
      in if \<not> is_valid numerator \<or> \<not> is_valid denominator then new_Amount_arg Arg_not_a_Value
         else if is_zero denominator then new_Amount_arg Arg_not_a_Value
         else
           (case (case reference_date of
                    None \<Rightarrow> Inr denominator
                  | Some d \<Rightarrow> if d \<noteq> 0 then applyInterest env strict denominator d
                              else Inr denominator) of
              Inl e \<Rightarrow> Inl e
            | Inr denominator' \<Rightarrow>
                (case (if amt_is_native denominator'
                       then (case Amount_multiply_json env strict numerator
                                     J_object_without_value of
                               Inl e \<Rightarrow> Inl e
                             | Inr product \<Rightarrow> set_value_any strict numerator (Is_Amount product))
                       else Inr numerator) of
                   Inl e \<Rightarrow> Inl e
                 | Inr numerator' \<Rightarrow> Amount_divide strict numerator' denominator')))"

section \<open>Quality\<close>

text \<open>\<^verbatim>\<open>String.prototype.substring\<close>: both indices are clamped to the string and swapped
  when the first is the greater.\<close>

definition clamp_index :: "string \<Rightarrow> int \<Rightarrow> nat" where
  "clamp_index s i = (if i < 0 then 0 else min (nat i) (length s))"

definition substring :: "string \<Rightarrow> int \<Rightarrow> int \<Rightarrow> string" where
  "substring s i j =
     (let a = clamp_index s i; b = clamp_index s j
      in take (max a b - min a b) (drop (min a b) s))"

definition substring_from :: "string \<Rightarrow> int \<Rightarrow> string" where
  "substring_from s i = drop (clamp_index s i) s"

definition hex_val :: "char \<Rightarrow> nat option" where
  "hex_val c =
     (let n = (of_char c :: nat)
      in if 48 \<le> n \<and> n \<le> 57 then Some (n - 48)
         else if 65 \<le> n \<and> n \<le> 70 then Some (n - 55)
         else if 97 \<le> n \<and> n \<le> 102 then Some (n - 87)
         else None)"

definition is_hex :: "char \<Rightarrow> bool" where
  "is_hex c = (hex_val c \<noteq> None)"

definition nat_of_hex :: "string \<Rightarrow> nat" where
  "nat_of_hex s = foldl (\<lambda>n c. 16 * n + (case hex_val c of Some d \<Rightarrow> d | None \<Rightarrow> 0)) 0 s"

text \<open>
  Modelled from the spec: \<^verbatim>\<open>new IOUValue(s, null, 16)\<close>, the issued value of a string of
  hexadecimal digits, rounded half up to 16 significant digits.  At a string that is
  no hexadecimal number the decimal library raises an error; the model takes every
  string that is not made of hexadecimal digits for such a string.
\<close>

definition IOUValue_of_hex :: "string \<Rightarrow> error + value" where
  "IOUValue_of_hex s =
     (if s \<noteq> [] \<and> list_all is_hex s then Inr (IOUValue (int (nat_of_hex s)) 0)
      else Inl BigNumber_Error)"

text \<open>
  \<^verbatim>\<open>parseInt(s, 16)\<close>: leading white space, a sign and a prefix \<open>0x\<close> are skipped, then
  the longest run of hexadecimal digits is read; \<open>None\<close> (NaN) when that run is empty.
\<close>

definition strip_0x :: "string \<Rightarrow> string" where
  "strip_0x s =
     (case s of
        c # x # r \<Rightarrow> if c = CHR ''0'' \<and> (x = CHR ''x'' \<or> x = CHR ''X'') then r else s
      | _ \<Rightarrow> s)"

definition parseInt16 :: "string \<Rightarrow> int option" where
  "parseInt16 s =
     (let t = dropWhile is_space s;
          neg = (t \<noteq> [] \<and> hd t = CHR ''-'');
          d = takeWhile is_hex (strip_0x (strip_sign t))
      in if d = [] then None
         else Some (if neg then - int (nat_of_hex d) else int (nat_of_hex d)))"

text \<open>
  The options of \<^verbatim>\<open>parse_quality\<close>.  The currencies are taken as \<^verbatim>\<open>Currency.from_json\<close>
  returns them: \<open>opt_base_currency\<close> is \<^verbatim>\<open>Currency.from_json(options.base_currency)\<close>.
\<close>

record quality_opts =
  opt_inverse :: bool
  opt_base_currency :: currency
  opt_reference_date :: "int option"
  opt_xrp_as_drops :: bool

text \<open>
  \<^verbatim>\<open>new IOUValue(mantissa.toString() + 'e' + offset.toString())\<close> at a mantissa read from
  hexadecimal digits, whose text is a whole number: followed by an exponent it reads
  back as the mantissa with its exponent moved by the offset.  When the offset is NaN
  the text is no number and the decimal library raises an error.
\<close>

definition IOUValue_e :: "value \<Rightarrow> int option \<Rightarrow> error + value" where
  "IOUValue_e mantissa offset =
     (case (vnum mantissa, offset) of
        (Dec neg c e, Some k) \<Rightarrow> Inr \<lparr>vclass = IOU, vnum = canon_iou False neg c (e + k)\<rparr>
      | _ \<Rightarrow> Inl BigNumber_Error)"

text \<open>
  \<^verbatim>\<open>new XRPValue(v.round(6, Value.getBNRoundDown()).toString())\<close>: the value cut toward
  zero at six decimal places, as a native value.  \<^verbatim>\<open>round\<close> ends in \<^verbatim>\<open>_canonicalize\<close>,
  and the text of a zero has no sign.
\<close>

definition XRPValue_round6 :: "value \<Rightarrow> error + value" where
  "XRPValue_round6 v =
     (case vnum v of
        NaN \<Rightarrow> Inl Invalid_result
      | Infinity s \<Rightarrow> Inr \<lparr>vclass = XRP, vnum = Infinity s\<rparr>
      | Dec neg c e \<Rightarrow>
          Inr \<lparr>vclass = XRP,
               vnum = (if dec_coef (canon_xrp neg c e) = 0 then zero_dec
                       else canon_xrp neg c e)\<rparr>)"

definition quality_mantissa :: "string \<Rightarrow> error + value" where
  "quality_mantissa quality = IOUValue_of_hex (substring_from quality (int (length quality) - 14))"

definition quality_offset :: "string \<Rightarrow> int option" where
  "quality_offset quality =
     map_option (\<lambda>n. n - 100)
       (parseInt16 (substring quality (int (length quality) - 16) (int (length quality) - 14)))"

text \<open>The statements of \<^verbatim>\<open>parse_quality\<close> that compute \<^verbatim>\<open>nativeAdjusted\<close>.\<close>

definition nativeAdjusted ::
  "bool \<Rightarrow> value \<Rightarrow> int option \<Rightarrow> quality_opts \<Rightarrow> error + value" where
  "nativeAdjusted is_nat mantissa offset options =
     and_then (IOUValue_e mantissa offset)
       (\<lambda>v0. and_then (if opt_inverse options then Value_invert v0 else Inr v0)
          (\<lambda>v1. if \<not> opt_xrp_as_drops options then
                   (if is_nat then Value_divide v1 bi_xns_unit
                    else if Currency_is_valid (opt_base_currency options)
                            \<and> Currency_is_native (opt_base_currency options)
                      then Value_multiply v1 bi_xns_unit
                    else Inr v1)
                 else Inr v1))"

text \<open>
  \<^verbatim>\<open>parse_quality\<close>.  The mantissa is constructed before the test for two native
  currencies, the value after it.
\<close>

definition parse_quality ::
  "env \<Rightarrow> bool \<Rightarrow> amount \<Rightarrow> string \<Rightarrow> currency \<Rightarrow> uint160 \<Rightarrow> quality_opts \<Rightarrow> error + amount"
  where
  "parse_quality env strict this quality counterCurrency counterIssuer options =
     (let baseCurrency = opt_base_currency options
      in and_then (quality_mantissa quality)
           (\<lambda>mantissa.
              let offset = quality_offset quality;
                  this1 = this\<lparr>amt_currency := counterCurrency, amt_issuer := counterIssuer,
                              amt_is_native := Currency_is_native counterCurrency\<rparr>
              in if amt_is_native this1 \<and> Currency_is_native baseCurrency
                 then Inl XRP_XRP_quality_not_allowed
                 else
                   and_then (nativeAdjusted (amt_is_native this1) mantissa offset options)
                     (\<lambda>adjusted.
                        and_then (if amt_is_native this1
                                  then and_then (XRPValue_round6 adjusted)
                                         (set_value strict this1)
                                  else set_value strict this1 adjusted)
                          (\<lambda>this2.
                             case opt_reference_date options of
                               None \<Rightarrow> Inr this2
                             | Some d \<Rightarrow>
                                 if d \<noteq> 0 \<and> Currency_is_valid baseCurrency
                                    \<and> Currency_has_interest baseCurrency
                                 then and_then (Value_divide (amt_value this2)
                                                  (interest_value env baseCurrency d))
                                        (set_value strict this2)
                                 else Inr this2))))"

definition from_quality ::
  "env \<Rightarrow> bool \<Rightarrow> string \<Rightarrow> currency \<Rightarrow> uint160 \<Rightarrow> quality_opts \<Rightarrow> error + amount" where
  "from_quality env strict quality currency issuer options =
     parse_quality env strict new_Amount quality currency issuer options"

text \<open>A plain integer string: an optional minus sign and decimal digits.\<close>

definition integer_string :: "string \<Rightarrow> bool" where
  "integer_string s =
     (all_digits s \<or> (case s of [] \<Rightarrow> False | c # d \<Rightarrow> c = CHR ''-'' \<and> all_digits d))"

definition integer_digits :: "string \<Rightarrow> string" where
  "integer_digits s = (case s of [] \<Rightarrow> [] | c # d \<Rightarrow> if c = CHR ''-'' then d else s)"

definition integer_negative :: "string \<Rightarrow> bool" where
  "integer_negative s = (case s of [] \<Rightarrow> False | c # d \<Rightarrow> c = CHR ''-'')"

text \<open>The native value of a number of drops, in XRP.\<close>

definition drops_dec :: "bool \<Rightarrow> nat \<Rightarrow> dec" where
  "drops_dec neg n = (if n = 0 then zero_dec else Dec neg n (- 6))"

section \<open>Amounts for concrete inputs\<close>

text \<open>The native Amount of 0 drops, as \<^verbatim>\<open>from_json('0')\<close> gives it.\<close>

definition zero_XRP :: amount where
  "zero_XRP = \<lparr>amt_value = \<lparr>vclass = XRP, vnum = zero_dec\<rparr>, amt_is_native = True,
     amt_currency = Currency_native, amt_issuer = UInt160 0\<rparr>"

text \<open>The native Amount of \<open>10 ^ 21\<close> drops, as \<^verbatim>\<open>from_json\<close> gives it with strict mode off.\<close>

definition sextillion_drops :: amount where
  "sextillion_drops = \<lparr>amt_value = \<lparr>vclass = XRP, vnum = Dec False 1000000000000000000000 (- 6)\<rparr>,
     amt_is_native = True, amt_currency = Currency_native, amt_issuer = UInt160 0\<rparr>"

section \<open>Seed\<close>

text \<open>
  A seed holds a 128-bit number, or no number when it is not valid (\<^verbatim>\<open>_value = NaN\<close>), and
  a key type.  The codec \<^verbatim>\<open>decodeSeed\<close> of \<^verbatim>\<open>ripple-address-codec\<close> (\<open>None\<close> when it throws)
  and the hash \<^verbatim>\<open>sha512\<close> of \<^verbatim>\<open>hash.js\<close> are taken from outside; bytes are numbers.
\<close>

datatype KeyType = secp256k1 | ed25519

record seed =
  seed_value :: "nat option"
  seed_type :: KeyType

record seed_env =
  decodeSeed :: "string \<Rightarrow> (nat list \<times> KeyType) option"
  sha512 :: "nat list \<Rightarrow> nat list"

datatype seed_json = SJ_string string | SJ_not_a_string

definition new_Seed :: seed where
  "new_Seed = \<lparr>seed_value = None, seed_type = secp256k1\<rparr>"

definition nat_of_bytes :: "nat list \<Rightarrow> nat" where
  "nat_of_bytes bs = foldl (\<lambda>n b. 256 * n + b) 0 bs"

text \<open>
  Modelled from the spec: \<^verbatim>\<open>is_valid\<close>, \<^verbatim>\<open>parse_hex\<close> and \<^verbatim>\<open>parse_bytes\<close> of the base class
  \<^verbatim>\<open>UInt\<close> (module \<^verbatim>\<open>./uint\<close>) at the width of a seed, 16 bytes: a text of 32 hexadecimal
  digits, or 16 bytes, give the number they spell in big-endian order; anything else
  gives no number.
\<close>

definition Seed_is_valid :: "seed \<Rightarrow> bool" where
  "Seed_is_valid this = (seed_value this \<noteq> None)"

definition Seed_parse_hex :: "seed \<Rightarrow> string \<Rightarrow> seed" where
  "Seed_parse_hex this j =
     this\<lparr>seed_value := (if length j = 32 \<and> list_all is_hex j then Some (nat_of_hex j)
                           else None)\<rparr>"

definition Seed_parse_bytes :: "seed \<Rightarrow> nat list \<Rightarrow> seed" where
  "Seed_parse_bytes this bs =
     this\<lparr>seed_value := (if length bs = 16 then Some (nat_of_bytes bs) else None)\<rparr>"

definition Seed_parse_base58 :: "seed_env \<Rightarrow> seed \<Rightarrow> string \<Rightarrow> seed" where
  "Seed_parse_base58 ext this j =
     (if j = [] \<or> hd j \<noteq> CHR ''s'' then this\<lparr>seed_value := None\<rparr>
      else
        (case decodeSeed ext j of
           Some (bytes, type) \<Rightarrow> this\<lparr>seed_value := Some (nat_of_bytes bytes), seed_type := type\<rparr>
         | None \<Rightarrow> this\<lparr>seed_value := None\<rparr>))"

definition Seed_parse_passphrase :: "seed_env \<Rightarrow> seed \<Rightarrow> string \<Rightarrow> seed" where
  "Seed_parse_passphrase ext this j =
     (let phraseBytes = map of_char j;
          hash = sha512 ext phraseBytes
      in Seed_parse_bytes this (take 16 hash))"

definition Seed_parse_json :: "seed_env \<Rightarrow> seed \<Rightarrow> seed_json \<Rightarrow> seed" where
  "Seed_parse_json ext this j =
     (case j of
        SJ_string s \<Rightarrow>
          if s = [] then this\<lparr>seed_value := None\<rparr>
          else
            (let this1 = Seed_parse_base58 ext this s;
                 this2 = (if \<not> Seed_is_valid this1 then Seed_parse_hex this1 s else this1)
             in if \<not> Seed_is_valid this2 \<and> hd s \<noteq> CHR ''s''
                then Seed_parse_passphrase ext this2 s
                else this2)
      | SJ_not_a_string \<Rightarrow> this\<lparr>seed_value := None\<rparr>)"

definition Seed_from_json :: "seed_env \<Rightarrow> seed_json \<Rightarrow> seed" where
  "Seed_from_json ext j = Seed_parse_json ext new_Seed j"

text \<open>Stand-ins for the codec and the hash, for concrete inputs.\<close>

definition example_seed_env :: seed_env where
  "example_seed_env =
     \<lparr>decodeSeed = (\<lambda>s. if s = ''sEd'' then Some ([1, 2], ed25519) else None),
      sha512 = (\<lambda>bs. replicate 64 (length bs))\<rparr>"


section \<open>Wire text\<close>

text \<open>The decimal digits of a number, and \<^verbatim>\<open>toString\<close> of an integer.\<close>

definition digit_char :: "nat \<Rightarrow> char" where
  "digit_char n = ''0123456789'' ! (n mod 10)"

fun digits_of :: "nat \<Rightarrow> string" where
  "digits_of n = (if n < 10 then [digit_char n] else digits_of (n div 10) @ [digit_char (n mod 10)])"

declare digits_of.simps [simp del]

definition show_int :: "int \<Rightarrow> string" where
  "show_int i = (if i < 0 then CHR ''-'' # digits_of (nat (- i)) else digits_of (nat i))"

definition is_zero_char :: "char \<Rightarrow> bool" where
  "is_zero_char c = (c = CHR ''0'')"

definition strip_trailing_zeros :: "string \<Rightarrow> string" where
  "strip_trailing_zeros s = rev (dropWhile is_zero_char (rev s))"

text \<open>
  Modelled from the spec: \<^verbatim>\<open>toString\<close>, \<^verbatim>\<open>getExponent\<close> (module \<^verbatim>\<open>./value\<close>) and
  \<^verbatim>\<open>utils.getMantissa16FromString\<close> (module \<^verbatim>\<open>./utils\<close>).  \<^verbatim>\<open>getExponent\<close> is the
  exponent of the leading digit (0 for zero), so that \<^verbatim>\<open>getExponent() - 15\<close> is the
  exponent of a 16-digit coefficient; the mantissa is the text of the 16 leading
  digits, padded with zeros.  \<^verbatim>\<open>toString\<close> is that of the decimal library: plain
  positional notation when the exponent of the leading digit lies between -6 and 20,
  and otherwise the digits without trailing zeros, a point after the first, the letter
  \<open>e\<close> and the signed exponent; a zero is written without sign.
\<close>

definition plain_decimal :: "nat \<Rightarrow> int \<Rightarrow> string" where
  "plain_decimal c e =
     (if 0 \<le> e then digits_of (c * 10 ^ nat e)
      else
        (let k = nat (- e); ip = c div 10 ^ k; fp = c mod 10 ^ k
         in if fp = 0 then digits_of ip
            else digits_of ip @ CHR ''.''
                 # strip_trailing_zeros
                     (replicate (k - length (digits_of fp)) CHR ''0'' @ digits_of fp)))"

definition exponent_notation :: "nat \<Rightarrow> int \<Rightarrow> string" where
  "exponent_notation c x =
     (let ds = strip_trailing_zeros (digits_of c)
      in hd ds # (if tl ds = [] then [] else CHR ''.'' # tl ds)
         @ ''e'' @ (if x < 0 then ''-'' else ''+'') @ digits_of (nat \<bar>x\<bar>))"

definition getExponent :: "value \<Rightarrow> int" where
  "getExponent v =
     (case vnum v of
        Dec neg c e \<Rightarrow> if c = 0 then 0 else e + int (ndigits c) - 1
      | _ \<Rightarrow> 0)"

definition Value_toString :: "value \<Rightarrow> string" where
  "Value_toString v =
     (case vnum v of
        NaN \<Rightarrow> ''NaN''
      | Infinity s \<Rightarrow> (if s then ''-'' else []) @ ''Infinity''
      | Dec neg c e \<Rightarrow>
          if c = 0 then ''0''
          else (if neg then ''-'' else [])
               @ (if getExponent v < - 6 \<or> 20 < getExponent v
                  then exponent_notation c (getExponent v)
                  else plain_decimal c e))"

definition getMantissa16 :: "value \<Rightarrow> string" where
  "getMantissa16 v = take 16 (digits_of (dec_coef (vnum v)) @ replicate 16 CHR ''0'')"

text \<open>
  The matches of \<^verbatim>\<open>/[1-9].*$/\<close> and \<^verbatim>\<open>/[1-9]0*$/\<close>: the leftmost position from which the
  pattern reaches the end of the text (\<open>.\<close> matches no line terminator).
\<close>

definition is_1_to_9 :: "char \<Rightarrow> bool" where
  "is_1_to_9 c = (c \<in> set ''123456789'')"

fun match_nonzero_rest :: "string \<Rightarrow> string option" where
  "match_nonzero_rest [] = None"
| "match_nonzero_rest (c # r) =
     (if is_1_to_9 c \<and> \<not> list_ex line_terminator r then Some (c # r)
      else match_nonzero_rest r)"

fun match_nonzero_zeros :: "string \<Rightarrow> string option" where
  "match_nonzero_zeros [] = None"
| "match_nonzero_zeros (c # r) =
     (if is_1_to_9 c \<and> list_all is_zero_char r then Some (c # r)
      else match_nonzero_zeros r)"

text \<open>The last statements of \<^verbatim>\<open>to_text\<close>, from \<^verbatim>\<open>const val\<close> on, without the sign.\<close>

definition window_text :: "string \<Rightarrow> int \<Rightarrow> string" where
  "window_text mantissa offset =
     (let val = ''000000000000000000000000000'' @ mantissa
                @ ''00000000000000000000000'';
          pre = substring val 0 (offset + 43);
          post = substring_from val (offset + 43);
          s_pre = match_nonzero_rest pre;
          s_post = match_nonzero_zeros post
      in (case s_pre of Some x \<Rightarrow> x | None \<Rightarrow> ''0'')
         @ (case s_post of
              Some x \<Rightarrow>
                ''.'' @ substring post 0 (1 + int (length post) - int (length x))
            | None \<Rightarrow> []))"

definition to_text :: "amount \<Rightarrow> error + string" where
  "to_text this =
     (if \<not> is_valid this then Inr ''NaN''
      else if amt_is_native this
        then and_then (Value_multiply (amt_value this) bi_xns_unit)
               (\<lambda>product. Inr (Value_toString product))
      else
        (let offset = getExponent (amt_value this) - 15;
             sign = (if isNegative (amt_value this) then ''-'' else []);
             mantissa = getMantissa16 (Value_abs (amt_value this))
         in if offset \<noteq> 0 \<and> (offset < - 25 \<or> offset > - 4)
            then Inr (sign @ mantissa @ ''e'' @ show_int offset)
            else Inr (sign @ window_text mantissa offset)))"

text \<open>
  The fixed-point text in the words of the specification: the mantissa is placed in a
  window padded with zeros and split at \<open>e + 43\<close>; the part before gives the integer
  digits without leading zeros, the part after the fraction without trailing zeros.
\<close>

definition fixed_point :: "string \<Rightarrow> int \<Rightarrow> string" where
  "fixed_point m e =
     (let window = replicate 27 CHR ''0'' @ m @ replicate 23 CHR ''0'';
          whole = dropWhile is_zero_char (take (nat (e + 43)) window);
          fraction = strip_trailing_zeros (drop (nat (e + 43)) window)
      in (if whole = [] then ''0'' else whole)
         @ (if fraction = [] then [] else CHR ''.'' # fraction))"


text \<open>An issued Amount of a given value, in USD of issuer 1, for concrete inputs.\<close>

definition issued :: "value \<Rightarrow> amount" where
  "issued v = \<lparr>amt_value = v, amt_is_native = False,
     amt_currency = Currency_iso ''USD'', amt_issuer = UInt160 1\<rparr>"

text \<open>An environment and options used for concrete inputs.\<close>

definition example_env :: env where
  "example_env =
     \<lparr>Currency_from_json = (\<lambda>s. if s = ''0'' then Currency_native else Currency_iso s),
      UInt160_from_json = (\<lambda>s. if s = ''0'' then UInt160 0 else UInt160 1),
      interest_value = (\<lambda>c d. IOUValue 1 0)\<rparr>"

definition plain_opts :: "currency \<Rightarrow> quality_opts" where
  "plain_opts base =
     \<lparr>opt_inverse = False, opt_base_currency = base, opt_reference_date = None,
      opt_xrp_as_drops = False\<rparr>"

text \<open>The value that \<^verbatim>\<open>_set_value\<close> stores.\<close>

definition stored :: "value \<Rightarrow> value" where
  "stored v = (if isZero v \<and> isNegative v then Value_negate v else v)"

text \<open>Two amounts used as concrete inputs: 1 XRP and 1 USD of issuer 1.\<close>

definition one_XRP :: amount where
  "one_XRP = \<lparr>amt_value = XRPValue 1 0, amt_is_native = True,
     amt_currency = Currency_native, amt_issuer = UInt160 0\<rparr>"

definition one_USD :: amount where
  "one_USD = \<lparr>amt_value = IOUValue 1 0, amt_is_native = False,
     amt_currency = Currency_iso ''USD'', amt_issuer = UInt160 1\<rparr>"

section \<open>Properties\<close>

subsection \<open>Comparison and the constants\<close>

lemma pow10_pos: "0 < pow10 e"
  by (simp add: pow10_def)

lemma pow10_add: "pow10 (a + b) = pow10 a * pow10 b"
proof -
  have "pow10 e = 10 powi e" for e
    by (simp add: pow10_def power_int_def field_simps)
  then show ?thesis by (simp add: power_int_add)
qed

lemma pow10_nat: "0 \<le> k \<Longrightarrow> pow10 k = 10 ^ nat k"
  by (simp add: pow10_def)

lemma rat_of_dec_scaled:
  assumes "e \<le> e0"
  shows "rat_of_dec (Dec neg c e0) = of_int (scaled (Dec neg c e0) e) * pow10 e"
proof -
  have "pow10 e0 = pow10 ((e0 - e) + e)" by simp
  also have "\<dots> = 10 ^ nat (e0 - e) * pow10 e"
    using assms by (simp only: pow10_add) (simp add: pow10_nat)
  finally show ?thesis by simp
qed

lemma compare_dec_rat:
  "compare_dec (Dec s c e) (Dec t d f) =
     Some (if rat_of_dec (Dec s c e) < rat_of_dec (Dec t d f) then - 1
           else if rat_of_dec (Dec s c e) = rat_of_dec (Dec t d f) then 0 else 1)"
proof -
  define m where "m = min e f"
  define x where "x = scaled (Dec s c e) m"
  define y where "y = scaled (Dec t d f) m"
  have ea: "m \<le> e" and eb: "m \<le> f" by (simp_all add: m_def)
  have ra: "rat_of_dec (Dec s c e) = of_int x * pow10 m"
    unfolding x_def by (rule rat_of_dec_scaled [OF ea])
  have rb: "rat_of_dec (Dec t d f) = of_int y * pow10 m"
    unfolding y_def by (rule rat_of_dec_scaled [OF eb])
  have lt: "rat_of_dec (Dec s c e) < rat_of_dec (Dec t d f) \<longleftrightarrow> x < y"
    unfolding ra rb using pow10_pos [of m] by (simp add: mult_less_cancel_right)
  have eq: "rat_of_dec (Dec s c e) = rat_of_dec (Dec t d f) \<longleftrightarrow> x = y"
    unfolding ra rb using pow10_pos [of m] by simp
  have c: "compare_dec (Dec s c e) (Dec t d f) =
      Some (if x < y then - 1 else if x = y then 0 else 1)"
    unfolding x_def y_def m_def by (simp only: compare_dec.simps Let_def)
  show ?thesis by (simp only: c lt eq)
qed

lemma greaterThan_v_rat:
  assumes "vnum b = Dec t d f" "\<bar>rat_of_dec (vnum b)\<bar> < 10 ^ 100"
  shows "greaterThan_v a b \<longleftrightarrow> \<not> isNaN a \<and> rat_of_dec (vnum b) < rat_of_dec (vnum a)"
proof (cases "vnum a")
  case NaN
  then show ?thesis by (simp add: greaterThan_v_def comparedTo_def isNaN_def assms(1))
next
  case (Infinity s)
  then show ?thesis
    using assms(2) by (auto simp: greaterThan_v_def comparedTo_def isNaN_def assms(1))
next
  case (Dec s c e)
  then show ?thesis
    by (simp add: greaterThan_v_def comparedTo_def isNaN_def assms(1) compare_dec_rat
        del: compare_dec.simps rat_of_dec.simps)
qed

lemma lessThan_v_rat:
  assumes "vnum b = Dec t d f" "\<bar>rat_of_dec (vnum b)\<bar> < 10 ^ 100"
  shows "lessThan_v a b \<longleftrightarrow> \<not> isNaN a \<and> rat_of_dec (vnum a) < rat_of_dec (vnum b)"
proof (cases "vnum a")
  case NaN
  then show ?thesis by (simp add: lessThan_v_def comparedTo_def isNaN_def assms(1))
next
  case (Infinity s)
  then show ?thesis
    using assms(2) by (auto simp: lessThan_v_def comparedTo_def isNaN_def assms(1))
next
  case (Dec s c e)
  then show ?thesis
    by (simp add: lessThan_v_def comparedTo_def isNaN_def assms(1) compare_dec_rat
        del: compare_dec.simps rat_of_dec.simps)
qed

lemma MAX_XRP_VALUE_eq: "MAX_XRP_VALUE = \<lparr>vclass = XRP, vnum = Dec False 100000000000000000 (- 6)\<rparr>"
  by (simp add: MAX_XRP_VALUE_def XRPValue_def canon_xrp_def)

lemma MAX_IOU_VALUE_eq: "MAX_IOU_VALUE = \<lparr>vclass = IOU, vnum = Dec False 9999999999999999 80\<rparr>"
  by (simp add: MAX_IOU_VALUE_def IOUValue_def canon_iou_def norm16_def ndigits.simps)

lemma MIN_IOU_VALUE_eq: "MIN_IOU_VALUE = \<lparr>vclass = IOU, vnum = Dec False 1000000000000000 (- 96)\<rparr>"
  by (simp add: MIN_IOU_VALUE_def IOUValue_def canon_iou_def norm16_def ndigits.simps)

lemma bi_xns_unit_eq: "bi_xns_unit = \<lparr>vclass = IOU, vnum = Dec False 1000000000000000 (- 9)\<rparr>"
  by (simp add: bi_xns_unit_def IOUValue_def canon_iou_def norm16_def ndigits.simps)

lemma magnitude_abs: "magnitude (Value_abs v) = magnitude v"
  by (cases "vnum v") (simp_all add: magnitude_def Value_abs_def)

lemma isNaN_abs: "isNaN (Value_abs v) = isNaN v"
  by (cases "vnum v") (simp_all add: isNaN_def Value_abs_def)

lemma rat_of_abs: "rat_of_dec (vnum (Value_abs v)) = magnitude v"
  by (cases "vnum v") (simp_all add: magnitude_def Value_abs_def abs_mult pow10_pos less_imp_le)

lemma rat_MAX_XRP: "rat_of_dec (vnum MAX_XRP_VALUE) = 10 ^ 11"
  by (simp add: MAX_XRP_VALUE_eq pow10_def)

lemma rat_MAX_IOU: "rat_of_dec (vnum MAX_IOU_VALUE) = (10 ^ 16 - 1) * 10 ^ 80"
  by (simp add: MAX_IOU_VALUE_eq pow10_def)

lemma rat_MIN_IOU: "rat_of_dec (vnum MIN_IOU_VALUE) = 1 / 10 ^ 81"
  by (simp add: MIN_IOU_VALUE_eq pow10_def)

lemma check_limits_rat:
  "check_limits strict a =
     (if strict \<and> \<not> isNaN (amt_value a) \<and> \<not> isZero (amt_value a) \<and> amt_is_native a
         \<and> 10 ^ 11 < magnitude (amt_value a)
      then Inl Exceeding_max_value
      else if strict \<and> \<not> isNaN (amt_value a) \<and> \<not> isZero (amt_value a) \<and> \<not> amt_is_native a
         \<and> magnitude (amt_value a) < 1 / 10 ^ 81
      then Inl Exceeding_min_value
      else if strict \<and> \<not> isNaN (amt_value a) \<and> \<not> isZero (amt_value a) \<and> \<not> amt_is_native a
         \<and> (10 ^ 16 - 1) * 10 ^ 80 < magnitude (amt_value a)
      then Inl Exceeding_max_value
      else Inr a)"
proof -
  have vx: "vnum MAX_XRP_VALUE = Dec False 100000000000000000 (- 6)"
    and vi: "vnum MAX_IOU_VALUE = Dec False 9999999999999999 80"
    and vm: "vnum MIN_IOU_VALUE = Dec False 1000000000000000 (- 96)"
    by (simp_all add: MAX_XRP_VALUE_eq MAX_IOU_VALUE_eq MIN_IOU_VALUE_eq)
  have bx: "\<bar>rat_of_dec (vnum MAX_XRP_VALUE)\<bar> < 10 ^ 100"
    and bi: "\<bar>rat_of_dec (vnum MAX_IOU_VALUE)\<bar> < 10 ^ 100"
    and bm: "\<bar>rat_of_dec (vnum MIN_IOU_VALUE)\<bar> < 10 ^ 100"
    unfolding rat_MAX_XRP rat_MAX_IOU rat_MIN_IOU by simp_all
  have gx: "greaterThan_v w MAX_XRP_VALUE \<longleftrightarrow> \<not> isNaN w \<and> 10 ^ 11 < rat_of_dec (vnum w)" for w
    using greaterThan_v_rat [OF vx bx, of w] by (simp only: rat_MAX_XRP)
  have gi: "greaterThan_v w MAX_IOU_VALUE
      \<longleftrightarrow> \<not> isNaN w \<and> (10 ^ 16 - 1) * 10 ^ 80 < rat_of_dec (vnum w)" for w
    using greaterThan_v_rat [OF vi bi, of w] by (simp only: rat_MAX_IOU)
  have li: "lessThan_v w MIN_IOU_VALUE \<longleftrightarrow> \<not> isNaN w \<and> rat_of_dec (vnum w) < 1 / 10 ^ 81" for w
    using lessThan_v_rat [OF vm bm, of w] by (simp only: rat_MIN_IOU)
  show ?thesis
    unfolding check_limits_def Let_def gx gi li isNaN_abs rat_of_abs by auto
qed

lemma stored_props:
  "isNaN (stored v) = isNaN v" "isZero (stored v) = isZero v" "magnitude (stored v) = magnitude v"
  by (cases "vnum v"; simp add: stored_def isNaN_def isZero_def isNegative_def Value_negate_def magnitude_def)+

lemma set_value_cases:
  "set_value strict a v =
     (if strict \<and> \<not> isNaN v \<and> \<not> isZero v \<and> amt_is_native a \<and> 10 ^ 11 < magnitude v
      then Inl Exceeding_max_value
      else if strict \<and> \<not> isNaN v \<and> \<not> isZero v \<and> \<not> amt_is_native a \<and> magnitude v < 1 / 10 ^ 81
      then Inl Exceeding_min_value
      else if strict \<and> \<not> isNaN v \<and> \<not> isZero v \<and> \<not> amt_is_native a
         \<and> (10 ^ 16 - 1) * 10 ^ 80 < magnitude v
      then Inl Exceeding_max_value
      else Inr (a\<lparr>amt_value := (if isZero v \<and> isNegative v then Value_negate v else v)\<rparr>))"
proof -
  have "set_value strict a v = check_limits strict (a\<lparr>amt_value := stored v\<rparr>)"
    by (simp add: set_value_def stored_def)
  then show ?thesis
    by (simp add: check_limits_rat stored_props) (simp add: stored_def)
qed

lemmas amount_ev = Amount_with_def new_Amount_arg_def new_Amount_def Amount_NaN_def
  is_valid_def is_zero_def is_negative_def is_native_def is_comparable_def
  check_limits_def set_value_def copyTo_def clone_def copy_def from_json_Amount_def
  Amount_negate_def Amount_add_def Amount_subtract_def Amount_multiply_def
  Amount_divide_def compareTo_def equals_def

lemma is_valid_new_Amount: "\<not> is_valid new_Amount"
  by (simp add: is_valid_def new_Amount_def Amount_with_def XRPValue_NaN_def isNaN_def)

lemma from_json_Amount_fields:
  "amt_value (from_json_Amount j) = amt_value j"
  "amt_is_native (from_json_Amount j) = amt_is_native j"
  "is_valid (from_json_Amount j) = is_valid j"
  by (simp_all add: from_json_Amount_def copyTo_def is_valid_def)

lemma isNaN_negate: "isNaN (Value_negate v) = isNaN v"
  by (cases "vnum v") (simp_all add: isNaN_def Value_negate_def)

lemma Amount_negate_fields:
  "is_valid (Amount_negate a) = is_valid a"
  "amt_is_native (Amount_negate a) = amt_is_native a"
  by (simp_all add: Amount_negate_def clone_def copyTo_def is_valid_def isNaN_negate)





lemma one_XRP_value: "amt_value one_XRP = \<lparr>vclass = XRP, vnum = Dec False 1000000 (- 6)\<rparr>"
  by (simp add: one_XRP_def XRPValue_def canon_xrp_def)

lemma one_USD_value:
  "amt_value one_USD = \<lparr>vclass = IOU, vnum = Dec False 1000000000000000 (- 15)\<rparr>"
  by (simp add: one_USD_def IOUValue_def canon_iou_def norm16_def ndigits.simps)

lemma one_valid: "is_valid one_XRP" "is_valid one_USD"
  by (simp_all add: is_valid_def isNaN_def one_XRP_value one_USD_value)


lemmas xrp_ev = XRPValue_def canon_xrp_def zero_dec_def
lemmas iou_ev = IOUValue_def canon_iou_def norm16_def round_div_def zero_dec_def Let_def
  ndigits.simps



lemma one_native: "amt_is_native one_XRP" "\<not> amt_is_native one_USD"
  by (simp_all add: one_XRP_def one_USD_def)


subsection \<open>C3: the range check\<close>



subsection \<open>C9: equality of invalid amounts\<close>

text \<open>
  C9.  For an invalid Amount \<open>a\<close>, \<^verbatim>\<open>equals\<close> is false at every Amount operand, on
  either side and at \<open>a\<close> itself: equality is not reflexive on invalid amounts.
\<close>

theorem equals_invalid:
  "\<not> is_valid a \<Longrightarrow>
     \<not> equals a d ignore_issuer \<and> \<not> equals a a ignore_issuer \<and> \<not> equals d a ignore_issuer"
  by (simp add: equals_def)

theorem equals_invalid_witness:
  "\<not> is_valid new_Amount
   \<and> \<not> equals new_Amount one_USD False \<and> \<not> equals new_Amount new_Amount False
   \<and> \<not> equals one_USD new_Amount False"
  using equals_invalid [OF is_valid_new_Amount, of one_USD False]
  by (simp add: is_valid_new_Amount)

subsection \<open>Arithmetic with NaN\<close>

lemma times_dec_NaN: "times_dec NaN y = NaN" "times_dec x NaN = NaN"
  by (cases y; simp) (cases x; simp)


lemma in_drops_NaN: "isNaN (in_drops k b) = isNaN b"
  by (cases "vnum b") (simp_all add: in_drops_def isNaN_def canon_xrp_def canon_iou_def Let_def
      split: vkind.splits prod.splits)

lemma canonicalize_NaN: "canonicalize k NaN = Inl Invalid_result"
  by (simp add: canonicalize_def)

lemma multiply_NaN:
  "isNaN a \<or> isNaN b \<Longrightarrow> Value_multiply a b = Inl Invalid_result"
  using in_drops_NaN [of "vclass a" b]
  by (auto simp: Value_multiply_def isNaN_def times_dec_NaN canonicalize_NaN)




subsection \<open>C4: \<^verbatim>\<open>ratio_human\<close>\<close>

lemma clone_fields:
  "amt_value (clone a False) = amt_value a"
  "amt_is_native (clone a b) = amt_is_native a"
  "amt_currency (clone a b) = amt_currency a"
  "amt_issuer (clone a b) = amt_issuer a"
  "is_valid (clone a False) = is_valid a"
  by (simp_all add: clone_def copyTo_def is_valid_def)

lemma from_json_without_value: "from_json env strict J_object_without_value = Inr new_Amount"
  by (simp add: from_json_def parse_json_def)

lemma multiply_json_without_value:
  "Amount_multiply_json env strict a J_object_without_value = Inl Invalid_result"
proof -
  have "Value_multiply (amt_value a) (amt_value new_Amount) = Inl Invalid_result"
    using is_valid_new_Amount by (simp add: multiply_NaN is_valid_def)
  then show ?thesis
    by (simp add: Amount_multiply_json_def from_json_without_value and_then_def)
qed

lemma ratio_human_invalid:
  "\<not> is_valid a \<or> \<not> is_valid d \<or> is_zero d \<Longrightarrow>
     ratio_human env strict a d date = Inl AssertionError"
  by (auto simp: ratio_human_def Let_def clone_fields from_json_Amount_fields
      new_Amount_arg_def is_zero_def)

lemma ratio_human_native:
  assumes "is_valid a" "is_valid d" "\<not> is_zero d" "amt_is_native d"
    and "date = None \<or> date = Some 0 \<or> \<not> Currency_has_interest (amt_currency d)"
  shows "ratio_human env strict a d date = Inl Invalid_result"
proof -
  have den: "(case date of None \<Rightarrow> Inr (from_json_Amount d)
       | Some x \<Rightarrow> if x \<noteq> 0 then applyInterest env strict (from_json_Amount d) x
                   else Inr (from_json_Amount d)) = Inr (from_json_Amount d)"
    using assms(5)
    by (auto simp: applyInterest_def from_json_Amount_def copyTo_def split: option.splits)
  show ?thesis
    using assms(1-4)
    by (simp add: ratio_human_def Let_def clone_fields from_json_Amount_fields is_zero_def
        den multiply_json_without_value)
qed

lemma ratio_human_issued:
  assumes "is_valid a" "is_valid d" "\<not> is_zero d" "\<not> amt_is_native d"
    and "date = None \<or> date = Some 0 \<or> \<not> Currency_has_interest (amt_currency d)"
  shows "ratio_human env strict a d date = Amount_divide strict (clone a False) (from_json_Amount d)"
proof -
  have den: "(case date of None \<Rightarrow> Inr (from_json_Amount d)
       | Some x \<Rightarrow> if x \<noteq> 0 then applyInterest env strict (from_json_Amount d) x
                   else Inr (from_json_Amount d)) = Inr (from_json_Amount d)"
    using assms(5)
    by (auto simp: applyInterest_def from_json_Amount_def copyTo_def split: option.splits)
  show ?thesis
    using assms(1-4)
    by (simp add: ratio_human_def Let_def clone_fields from_json_Amount_fields is_zero_def den)
qed

lemma one_not_zero: "\<not> is_zero one_XRP" "\<not> is_zero one_USD"
  by (simp_all add: is_zero_def isZero_def one_XRP_value one_USD_value)


text \<open>
  C4 describes what \<^verbatim>\<open>ratio_human\<close> is written to do; the function does not get
  there.  With an invalid operand or a zero denominator it evaluates \<^verbatim>\<open>new Amount(NaN)\<close>,
  whose constructor asserts that the argument is a \<^verbatim>\<open>Value\<close> and throws.  With a native
  denominator it evaluates \<^verbatim>\<open>numerator.multiply(bi_xns_unit)\<close>, where \<^verbatim>\<open>multiply\<close> reads
  the \<^verbatim>\<open>IOUValue\<close> as JSON, gets an invalid Amount and throws on the product with its
  NaN (and \<^verbatim>\<open>_set_value\<close> would be handed an Amount if the product were returned).
  Here 1 USD is divided by 1 XRP, and an invalid Amount is taken as numerator and as
  denominator.
\<close>

theorem ratio_human_throws:
  "ratio_human env strict one_USD one_XRP None = Inl Invalid_result
   \<and> ratio_human env strict new_Amount one_USD None = Inl AssertionError
   \<and> ratio_human env strict one_USD new_Amount None = Inl AssertionError"
  by (simp add: ratio_human_native ratio_human_invalid one_valid one_not_zero one_native
      is_valid_new_Amount)

theorem ratio_human_throws_witness:
  "is_valid one_USD \<and> is_valid one_XRP \<and> \<not> is_zero one_XRP \<and> amt_is_native one_XRP
   \<and> ratio_human example_env True one_USD one_XRP None = Inl Invalid_result
   \<and> \<not> is_valid new_Amount
   \<and> ratio_human example_env True new_Amount one_USD None = Inl AssertionError
   \<and> ratio_human example_env True one_USD new_Amount None = Inl AssertionError"
  using ratio_human_throws [of example_env True]
  by (simp add: one_valid one_not_zero one_native is_valid_new_Amount)

subsection \<open>C1: operands that are not comparable\<close>




subsection \<open>Digits and canonical forms\<close>

lemma ndigits_pos: "0 < ndigits n"
  by (subst ndigits.simps) simp

lemma ndigits_Suc0: "ndigits (Suc 0) = 1"
  by (subst ndigits.simps) simp

lemma ndigits_times10: "0 < n \<Longrightarrow> ndigits (10 * n) = Suc (ndigits n)"
  by (subst ndigits.simps) simp

lemma ndigits_shift: "0 < n \<Longrightarrow> ndigits (n * 10 ^ k) = ndigits n + k"
proof (induction k)
  case 0
  then show ?case by simp
next
  case (Suc k)
  have "ndigits (n * 10 ^ Suc k) = ndigits (10 * (n * 10 ^ k))"
    by (rule arg_cong [where f = ndigits]) simp
  then show ?case using Suc ndigits_times10 [of "n * 10 ^ k"] by simp
qed

lemma ndigits_div10: "10 \<le> n \<Longrightarrow> ndigits (n div 10) = ndigits n - 1"
  by (subst (2) ndigits.simps) simp

lemma ndigits_ge2: "2 \<le> ndigits n \<longleftrightarrow> 10 \<le> n"
  using ndigits_pos [of "n div 10"] by (subst ndigits.simps) auto

lemma ndigits_cut: "k < ndigits n \<Longrightarrow> ndigits (n div 10 ^ k) = ndigits n - k"
proof (induction k arbitrary: n)
  case 0
  then show ?case by simp
next
  case (Suc k)
  then have ten: "10 \<le> n" using ndigits_ge2 [of n] by simp
  have "k < ndigits (n div 10)" using Suc.prems ten by (simp add: ndigits_div10)
  then have "ndigits ((n div 10) div 10 ^ k) = ndigits (n div 10) - k" by (rule Suc.IH)
  moreover have "(n div 10) div 10 ^ k = n div 10 ^ Suc k"
    by (simp add: div_mult2_eq)
  ultimately show ?case using ten by (simp add: ndigits_div10)
qed

lemma ndigits_lower: "0 < n \<Longrightarrow> 10 ^ (ndigits n - 1) \<le> n"
proof (induction n rule: ndigits.induct)
  case (1 n)
  show ?case
  proof (cases "n < 10")
    case True
    then show ?thesis using "1.prems" by (subst ndigits.simps) simp
  next
    case False
    then have "10 ^ (ndigits (n div 10) - 1) \<le> n div 10" using "1.IH" by simp
    then have "10 * 10 ^ (ndigits (n div 10) - 1) \<le> n" by simp
    moreover have "ndigits n - 1 = Suc (ndigits (n div 10) - 1)"
      using False ndigits_pos [of "n div 10"] by (subst ndigits.simps) simp
    ultimately show ?thesis by simp
  qed
qed

lemma ndigits_upper: "n < 10 ^ ndigits n"
proof (induction n rule: ndigits.induct)
  case (1 n)
  show ?case
  proof (cases "n < 10")
    case True
    then show ?thesis by (subst ndigits.simps) simp
  next
    case False
    then have "n div 10 < 10 ^ ndigits (n div 10)" using "1.IH" by simp
    then have "n < 10 * 10 ^ ndigits (n div 10)" by simp
    moreover have "ndigits n = Suc (ndigits (n div 10))"
      using False by (subst ndigits.simps) simp
    ultimately show ?thesis by simp
  qed
qed

lemma ndigits_le:
  assumes "0 < n" "n < 10 ^ k"
  shows "ndigits n \<le> k"
proof -
  from ndigits_lower [OF assms(1)] assms(2) have "(10::nat) ^ (ndigits n - 1) < 10 ^ k"
    by (rule order.strict_trans1)
  then have "ndigits n - 1 < k" by (rule power_less_imp_less_exp [rotated]) simp
  then show ?thesis by simp
qed
subsection \<open>Numeric strings\<close>

lemma is_digit_cases:
  "is_digit c \<longleftrightarrow> c = CHR ''0'' \<or> c = CHR ''1'' \<or> c = CHR ''2'' \<or> c = CHR ''3'' \<or> c = CHR ''4''
     \<or> c = CHR ''5'' \<or> c = CHR ''6'' \<or> c = CHR ''7'' \<or> c = CHR ''8'' \<or> c = CHR ''9''"
  by (simp add: is_digit_def)

lemma is_digit_plain:
  assumes "is_digit c"
  shows "not_e c" "not_dot c" "not_slash c" "\<not> is_space c" "c \<noteq> CHR ''-''" "c \<noteq> CHR ''+''"
    "c \<noteq> CHR ''x''" "c \<noteq> CHR ''X''" "c \<noteq> CHR ''o''" "c \<noteq> CHR ''O''" "c \<noteq> CHR ''b''"
    "c \<noteq> CHR ''B''" "c \<noteq> CHR ''I''" "c \<noteq> CHR ''.''" "c \<noteq> CHR ''/''"
  using assms
  by (auto simp: is_digit_cases not_e_def not_dot_def not_slash_def is_space_def)

lemma all_digits_takeWhile:
  assumes "all_digits d" "\<And>c. is_digit c \<Longrightarrow> P c"
  shows "takeWhile P d = d" "dropWhile P d = []"
  using assms by (auto simp: all_digits_def list_all_iff)

lemma unsigned_decimal_digits:
  assumes "all_digits d"
  shows "unsigned_decimal d = Some (nat_of_digits d, 0)"
proof -
  have e: "takeWhile not_e d = d" "dropWhile not_e d = []"
    using all_digits_takeWhile [OF assms, of not_e] is_digit_plain(1) by blast+
  have p: "takeWhile not_dot d = d" "dropWhile not_dot d = []"
    using all_digits_takeWhile [OF assms, of not_dot] is_digit_plain(2) by blast+
  show ?thesis
    using assms by (simp add: unsigned_decimal_def e mantissa_part_def p exponent_part_def)
qed

lemma integer_string_cases:
  assumes "integer_string s"
  obtains (pos) "all_digits s" "integer_digits s = s" "\<not> integer_negative s"
  | (neg) d where "s = CHR ''-'' # d" "all_digits d" "integer_digits s = d" "integer_negative s"
proof (cases "all_digits s")
  case True
  then obtain c r where s: "s = c # r" "is_digit c"
    by (cases s) (auto simp: all_digits_def)
  then have "c \<noteq> CHR ''-''" by (simp add: is_digit_plain)
  then show ?thesis using pos True s by (simp add: integer_digits_def integer_negative_def)
next
  case False
  then obtain d where "s = CHR ''-'' # d" "all_digits d"
    using assms by (auto simp: integer_string_def split: list.splits)
  then show ?thesis using neg by (simp add: integer_digits_def integer_negative_def)
qed

lemma integer_string_digits: "integer_string s \<Longrightarrow> all_digits (integer_digits s)"
  by (erule integer_string_cases) simp_all

lemma parse_decimal_integer:
  assumes "integer_string s"
  shows "parse_decimal s = Some (integer_negative s, nat_of_digits (integer_digits s), 0)"
  using assms
proof (cases rule: integer_string_cases)
  case pos
  then obtain c r where s: "s = c # r" "is_digit c"
    by (cases s) (auto simp: all_digits_def)
  then have "c \<noteq> CHR ''-''" by (simp add: is_digit_plain)
  then show ?thesis
    using pos unsigned_decimal_digits [OF pos(1)] s(1) by (simp add: parse_decimal_def)
next
  case (neg d)
  then show ?thesis
    using unsigned_decimal_digits [OF neg(2)] by (simp add: parse_decimal_def)
qed

lemma integer_string_chars:
  assumes "integer_string s"
  shows "s \<noteq> []" "CHR ''.'' \<notin> set s" "CHR ''/'' \<notin> set s"
proof -
  have nd: "\<not> is_digit CHR ''.''" "\<not> is_digit CHR ''/''" by (simp_all add: is_digit_def)
  show "s \<noteq> []" "CHR ''.'' \<notin> set s" "CHR ''/'' \<notin> set s"
    using assms nd
    by (auto elim!: integer_string_cases simp: all_digits_def list_all_iff)
qed

lemma trim_plain:
  assumes "s \<noteq> []" "\<not> is_space (hd s)" "\<not> is_space (last s)"
  shows "trim s = s"
proof -
  have 1: "dropWhile is_space s = s" using assms(1,2) by (cases s) simp_all
  have "rev s \<noteq> []" "hd (rev s) = last s" using assms(1) by (simp_all add: hd_rev)
  then have "\<not> is_space (hd (rev s))" using assms(3) by simp
  then have 2: "dropWhile is_space (rev s) = rev s"
    using \<open>rev s \<noteq> []\<close> by (cases "rev s") (simp_all del: rev_is_Nil_conv)
  show ?thesis by (simp add: trim_def 1 2)
qed

lemma js_isNaN_integer:
  assumes "integer_string s"
  shows "\<not> js_isNaN s"
  using assms
proof (cases rule: integer_string_cases)
  case pos
  then obtain c r where s: "s = c # r" "is_digit c" "list_all is_digit r"
    by (cases s) (auto simp: all_digits_def)
  have l: "is_digit (last s)" using pos(1) by (auto simp: all_digits_def list_all_iff)
  have t: "trim s = s"
    using s(2) l by (intro trim_plain) (simp_all add: s(1) is_digit_plain(4))
  have rl: "radix_literal s = None"
  proof (cases r)
    case Nil
    then show ?thesis by (simp add: radix_literal_def s(1))
  next
    case (Cons x d)
    then have "is_digit x" using s(3) by simp
    then show ?thesis
      using is_digit_plain(7-12) [of x] by (simp add: radix_literal_def s(1) Cons)
  qed
  have ss: "strip_sign s = s"
    using is_digit_plain(5,6) [OF s(2)] by (simp add: strip_sign_def s(1))
  have "s \<noteq> ''Infinity''" using is_digit_plain(13) [OF s(2)] s(1) by auto
  then show ?thesis
    using unsigned_decimal_digits [OF pos(1)] by (simp add: js_isNaN_def Let_def t rl ss)
next
  case (neg d)
  then obtain c r where d: "d = c # r" "is_digit c"
    by (cases d) (auto simp: all_digits_def)
  have l: "is_digit (last s)" using neg(1,2) d(1) by (auto simp: all_digits_def list_all_iff)
  have sp: "\<not> is_space (last s)" "\<not> is_space (hd s)"
    using is_digit_plain(4) [OF l] by (simp_all add: neg(1) is_space_def)
  have t: "trim s = s"
    using sp by (intro trim_plain) (simp_all add: neg(1))
  have rl: "radix_literal s = None" by (simp add: radix_literal_def neg(1) d(1))
  have ss: "strip_sign s = d" by (simp add: strip_sign_def neg(1))
  have "d \<noteq> ''Infinity''" using is_digit_plain(13) [OF d(2)] d(1) by auto
  then show ?thesis
    using unsigned_decimal_digits [OF neg(2)] by (simp add: js_isNaN_def Let_def t rl ss)
qed

lemma match_slashes_none: "CHR ''/'' \<notin> set s \<Longrightarrow> match_slashes s = None"
proof -
  assume "CHR ''/'' \<notin> set s"
  then have "dropWhile not_slash s = []" by (auto simp: not_slash_def)
  then show ?thesis by (simp add: match_slashes_def Let_def)
qed

lemma from_json_decimal_point:
  assumes "s \<noteq> []" "\<not> js_isNaN s" "CHR ''/'' \<notin> set s" "CHR ''.'' \<in> set s"
  shows "from_json env strict (J_string s) = Inl Native_amounts_integer_drops"
  using assms by (simp add: from_json_def parse_json_def match_slashes_none parse_native_def)
lemma is_digit_not_N: "is_digit c \<Longrightarrow> c \<noteq> CHR ''N''"
  by (auto simp: is_digit_cases)

lemma parse_number_integer:
  assumes "integer_string s"
  shows "parse_number s = Some (Dec (integer_negative s) (nat_of_digits (integer_digits s)) 0)"
  using assms
proof (cases rule: integer_string_cases)
  case pos
  then obtain c r where s: "s = c # r" "is_digit c"
    by (cases s) (auto simp: all_digits_def)
  have "c \<noteq> CHR ''N''" "c \<noteq> CHR ''-''" "c \<noteq> CHR ''I''"
    using s(2) by (simp_all add: is_digit_not_N is_digit_plain)
  then show ?thesis
    using parse_decimal_integer [OF assms] by (simp add: parse_number_def s(1))
next
  case (neg d)
  then obtain c r where d: "d = c # r" "is_digit c"
    by (cases d) (auto simp: all_digits_def)
  have "c \<noteq> CHR ''N''" "c \<noteq> CHR ''I''"
    using d(2) by (simp_all add: is_digit_not_N is_digit_plain)
  then show ?thesis
    using parse_decimal_integer [OF assms] by (simp add: parse_number_def neg(1) d(1))
qed

text \<open>The native value of \<open>n\<close> drops as the arithmetic leaves it: a zero keeps its sign.\<close>

lemma canon_xrp_whole:
  "canon_xrp neg n 0 = (if n = 0 then Dec neg 0 (- 100) else Dec neg (n * 1000000) (- 6))"
  by (simp add: canon_xrp_def)

lemma XRPValue_of_integer:
  assumes "integer_string s"
  shows "XRPValue_of_string s =
     Inr \<lparr>vclass = XRP, vnum = canon_xrp (integer_negative s) (nat_of_digits (integer_digits s)) 0\<rparr>"
  by (simp add: XRPValue_of_string_def parse_number_integer [OF assms])

lemma round_div_exact: "0 < q \<Longrightarrow> round_div (m * q) q = m"
proof -
  assume q: "0 < q"
  have "(2 * (m * q) + q) div (2 * q) = (q + m * (2 * q)) div (2 * q)"
    by (simp add: algebra_simps)
  also have "\<dots> = q div (2 * q) + m"
    using q by simp
  also have "\<dots> = m" using q by simp
  finally show ?thesis by (simp add: round_div_def)
qed

lemma round_div_zero: "0 < q \<Longrightarrow> round_div 0 q = 0"
  using round_div_exact [of q 0] by simp

lemma quotient40_unit:
  "quotient40 (n * 1000000) (- 6) 1000000000000000 (- 9) = n * 10 ^ 34"
proof -
  have "n * 1000000 * 10 ^ 43 = (n * 10 ^ 34) * (1000000000000000::nat)" by simp
  then have "round_div (n * 1000000 * 10 ^ 43) 1000000000000000 = n * 10 ^ 34"
    by (simp only: round_div_exact [of 1000000000000000 "n * 10 ^ 34"] zero_less_numeral)
  then show ?thesis by (simp add: quotient40_def Let_def)
qed

lemma divide_unit:
  "Value_divide \<lparr>vclass = XRP, vnum = canon_xrp neg n 0\<rparr> bi_xns_unit
     = Inr \<lparr>vclass = XRP, vnum = (if n = 0 then Dec neg 0 (- 100) else Dec neg n (- 6))\<rparr>"
proof (cases "n = 0")
  case True
  have "quotient40 0 (- 100) 1000000000000000 (- 9) = 0"
    by (simp add: quotient40_def Let_def round_div_zero)
  then show ?thesis
    using True
    by (simp add: Value_divide_def Let_def in_drops_def bi_xns_unit_eq isZero_def canon_xrp_whole
        canonicalize_def canon_xrp_def)
next
  case False
  have "n * 10 ^ 34 div 10 ^ 34 = n" by simp
  then show ?thesis
    using False
    by (simp add: Value_divide_def Let_def in_drops_def bi_xns_unit_eq isZero_def canon_xrp_whole
        canonicalize_def quotient40_unit canon_xrp_def)
qed

lemma drops_dec_props:
  "\<not> isNaN \<lparr>vclass = XRP, vnum = drops_dec neg n\<rparr>"
  "isZero \<lparr>vclass = XRP, vnum = drops_dec neg n\<rparr> = (n = 0)"
  "magnitude \<lparr>vclass = XRP, vnum = drops_dec neg n\<rparr> = of_nat n / 10 ^ 6"
  "\<not> (isZero \<lparr>vclass = XRP, vnum = drops_dec neg n\<rparr> \<and> isNegative \<lparr>vclass = XRP, vnum = drops_dec neg n\<rparr>)"
  "rat_of_dec (drops_dec neg n) * 10 ^ 6 = (if neg then - of_nat n else of_nat n)"
  by (simp_all add: isNaN_def isZero_def isNegative_def magnitude_def drops_dec_def zero_dec_def
      pow10_def)

lemma drops_limit: "(10 ^ 11 < (of_nat n :: rat) / 10 ^ 6) = (10 ^ 17 < n)"
proof -
  have "(10 ^ 11 < (of_nat n :: rat) / 10 ^ 6) = ((of_nat (10 ^ 17) :: rat) < of_nat n)"
    by (simp add: less_divide_eq)
  then show ?thesis by (simp only: of_nat_less_iff)
qed

lemma set_value_drops:
  "set_value strict a \<lparr>vclass = XRP, vnum = (if n = 0 then Dec neg 0 (- 100) else Dec neg n (- 6))\<rparr>
     = (if strict \<and> amt_is_native a \<and> 10 ^ 17 < n then Inl Exceeding_max_value
        else if strict \<and> \<not> amt_is_native a \<and> n \<noteq> 0
                \<and> magnitude \<lparr>vclass = XRP, vnum = Dec neg n (- 6)\<rparr> < 1 / 10 ^ 81
          then Inl Exceeding_min_value
        else if strict \<and> \<not> amt_is_native a \<and> n \<noteq> 0
                \<and> (10 ^ 16 - 1) * 10 ^ 80 < magnitude \<lparr>vclass = XRP, vnum = Dec neg n (- 6)\<rparr>
          then Inl Exceeding_max_value
        else Inr (a\<lparr>amt_value := \<lparr>vclass = XRP, vnum = drops_dec neg n\<rparr>\<rparr>))"
proof (cases "n = 0")
  case True
  then show ?thesis
    by (simp add: set_value_cases isNaN_def isZero_def isNegative_def Value_negate_def
        drops_dec_def zero_dec_def)
next
  case False
  have m: "magnitude \<lparr>vclass = XRP, vnum = Dec neg n (- 6)\<rparr> = of_nat n / 10 ^ 6"
    using drops_dec_props(3) [of neg n] False by (simp add: drops_dec_def)
  have l: "(100000000000 < rat_of_nat n / 1000000) = (10 ^ 17 < n)"
    using drops_limit [of n] by simp
  show ?thesis
    using False
    by (simp add: set_value_cases isNaN_def isZero_def drops_dec_def m l)
qed

lemma from_json_integer:
  assumes "integer_string s"
  shows "from_json env strict (J_string s) =
     (if strict \<and> 10 ^ 17 < nat_of_digits (integer_digits s) then Inl Exceeding_max_value
      else Inr \<lparr>amt_value = \<lparr>vclass = XRP,
                   vnum = drops_dec (integer_negative s) (nat_of_digits (integer_digits s))\<rparr>,
                amt_is_native = True,
                amt_currency = Currency_from_json env ''0'',
                amt_issuer = UInt160_from_json env ''0''\<rparr>)"
proof -
  define n where "n = nat_of_digits (integer_digits s)"
  define neg where "neg = integer_negative s"
  have pn: "parse_native strict new_Amount s =
      set_value strict (new_Amount\<lparr>amt_is_native := True\<rparr>)
        \<lparr>vclass = XRP, vnum = (if n = 0 then Dec neg 0 (- 100) else Dec neg n (- 6))\<rparr>"
    using integer_string_chars [OF assms] js_isNaN_integer [OF assms]
    by (simp add: parse_native_def XRPValue_of_integer [OF assms] and_then_def divide_unit
        n_def neg_def)
  have fj: "from_json env strict (J_string s) =
      (case set_value strict (new_Amount\<lparr>amt_is_native := True\<rparr>)
              \<lparr>vclass = XRP, vnum = (if n = 0 then Dec neg 0 (- 100) else Dec neg n (- 6))\<rparr> of
         Inl e \<Rightarrow> Inl e
       | Inr a \<Rightarrow> Inr (a\<lparr>amt_currency := Currency_from_json env ''0'',
                          amt_issuer := UInt160_from_json env ''0''\<rparr>))"
    using integer_string_chars [OF assms]
    by (simp add: from_json_def parse_json_def match_slashes_none pn)
  show ?thesis
    unfolding fj set_value_drops n_def [symmetric] neg_def [symmetric]
    by (simp add: new_Amount_def Amount_with_def)
qed

lemma is_digit_chars:
  "is_digit CHR ''0''" "is_digit CHR ''1''" "is_digit CHR ''5''"
  by (simp_all add: is_digit_def)

lemma big_integer:
  "integer_string ''100000000000000001''"
  "integer_digits ''100000000000000001'' = ''100000000000000001''"
  "nat_of_digits ''100000000000000001'' = 100000000000000001"
  by (simp_all add: integer_string_def integer_digits_def all_digits_def is_digit_chars
      nat_of_digits_def digit_val_def)

lemma million_integer:
  "integer_string ''1000000''"
  "integer_digits ''1000000'' = ''1000000''"
  "nat_of_digits ''1000000'' = 1000000"
  "\<not> integer_negative ''1000000''"
  by (simp_all add: integer_string_def integer_digits_def all_digits_def is_digit_chars
      nat_of_digits_def digit_val_def integer_negative_def)

lemma js_isNaN_1_5: "\<not> js_isNaN ''1.5''"
  by (simp add: js_isNaN_def trim_def is_space_def radix_literal_def strip_sign_def
      unsigned_decimal_def not_e_def mantissa_part_def not_dot_def all_digits_def
      is_digit_chars exponent_part_def)

lemma XRPValue_one: "XRPValue 1 0 = \<lparr>vclass = XRP, vnum = Dec False 1000000 (- 6)\<rparr>"
  by (simp add: xrp_ev)

lemma example_env_fields:
  "Currency_from_json example_env ''0'' = Currency_native"
  "UInt160_from_json example_env ''0'' = UInt160 0"
  by (simp_all add: example_env_def)


subsection \<open>C5: numeric strings\<close>

text \<open>
  C5, as the claim states it, fails for a plain integer string beyond the native range:
  \<open>100000000000000001\<close> drops is more than \<open>10 ^ 11\<close> XRP and strict mode throws.
\<close>

theorem from_json_integer_out_of_range:
  "integer_string ''100000000000000001''
   \<and> \<not> js_isNaN ''100000000000000001''
   \<and> CHR ''/'' \<notin> set ''100000000000000001''
   \<and> CHR ''.'' \<notin> set ''100000000000000001''
   \<and> from_json example_env True (J_string ''100000000000000001'') = Inl Exceeding_max_value"
  using js_isNaN_integer [OF big_integer(1)]
  by (simp add: from_json_integer [OF big_integer(1)] big_integer)

text \<open>
  C5, amended.  For every string without \<open>/\<close> that is not empty and is numeric for
  \<^verbatim>\<open>isNaN\<close>: if it contains a decimal point, \<^verbatim>\<open>from_json\<close> throws (native amounts must be
  integer drops).  If it is a plain integer string (an optional minus sign and decimal
  digits), it is such a numeric string, and the result is the valid native Amount of
  that many drops, unless strict mode is on and the number of drops exceeds \<open>10 ^ 17\<close>
  (\<open>10 ^ 11\<close> XRP), where the range check throws.
\<close>

theorem from_json_numeric_string:
  "(s \<noteq> [] \<and> \<not> js_isNaN s \<and> CHR ''/'' \<notin> set s \<and> CHR ''.'' \<in> set s
      \<longrightarrow> from_json env strict (J_string s) = Inl Native_amounts_integer_drops)
   \<and> (integer_string s \<longrightarrow>
        s \<noteq> [] \<and> \<not> js_isNaN s \<and> CHR ''/'' \<notin> set s \<and> CHR ''.'' \<notin> set s
        \<and> from_json env strict (J_string s) =
            (if strict \<and> 10 ^ 17 < nat_of_digits (integer_digits s)
             then Inl Exceeding_max_value
             else Inr \<lparr>amt_value = \<lparr>vclass = XRP,
                          vnum = drops_dec (integer_negative s)
                                   (nat_of_digits (integer_digits s))\<rparr>,
                       amt_is_native = True,
                       amt_currency = Currency_from_json env ''0'',
                       amt_issuer = UInt160_from_json env ''0''\<rparr>)
        \<and> (\<forall>a. from_json env strict (J_string s) = Inr a \<longrightarrow>
              is_valid a \<and> is_native a
              \<and> rat_of_dec (vnum (amt_value a)) * 10 ^ 6 =
                  (if integer_negative s then - of_nat (nat_of_digits (integer_digits s))
                   else of_nat (nat_of_digits (integer_digits s)))))"
proof (intro conjI impI)
  assume "s \<noteq> [] \<and> \<not> js_isNaN s \<and> CHR ''/'' \<notin> set s \<and> CHR ''.'' \<in> set s"
  then show "from_json env strict (J_string s) = Inl Native_amounts_integer_drops"
    by (simp add: from_json_decimal_point)
next
  assume i: "integer_string s"
  show "s \<noteq> []" "CHR ''/'' \<notin> set s" "CHR ''.'' \<notin> set s"
    using integer_string_chars [OF i] by simp_all
  show "\<not> js_isNaN s" by (rule js_isNaN_integer [OF i])
  show "from_json env strict (J_string s) =
            (if strict \<and> 10 ^ 17 < nat_of_digits (integer_digits s)
             then Inl Exceeding_max_value
             else Inr \<lparr>amt_value = \<lparr>vclass = XRP,
                          vnum = drops_dec (integer_negative s)
                                   (nat_of_digits (integer_digits s))\<rparr>,
                       amt_is_native = True,
                       amt_currency = Currency_from_json env ''0'',
                       amt_issuer = UInt160_from_json env ''0''\<rparr>)"
    by (rule from_json_integer [OF i])
  show "\<forall>a. from_json env strict (J_string s) = Inr a \<longrightarrow>
              is_valid a \<and> is_native a
              \<and> rat_of_dec (vnum (amt_value a)) * 10 ^ 6 =
                  (if integer_negative s then - of_nat (nat_of_digits (integer_digits s))
                   else of_nat (nat_of_digits (integer_digits s)))"
    using drops_dec_props(1,5) [of "integer_negative s" "nat_of_digits (integer_digits s)"]
    by (auto simp: from_json_integer [OF i] is_valid_def is_native_def split: if_splits)
qed

theorem from_json_numeric_string_witness:
  "''1.5'' \<noteq> [] \<and> \<not> js_isNaN ''1.5'' \<and> CHR ''/'' \<notin> set ''1.5'' \<and> CHR ''.'' \<in> set ''1.5''
   \<and> from_json example_env True (J_string ''1.5'') = Inl Native_amounts_integer_drops
   \<and> integer_string ''1000000''
   \<and> from_json example_env True (J_string ''1000000'') = Inr one_XRP
   \<and> is_valid one_XRP \<and> is_native one_XRP
   \<and> rat_of_dec (vnum (amt_value one_XRP)) * 10 ^ 6 = 1000000"
  using from_json_numeric_string [of "''1.5''" example_env True]
    from_json_numeric_string [of "''1000000''" example_env True]
  by (simp add: js_isNaN_1_5 million_integer example_env_fields drops_dec_def one_XRP_value
      one_XRP_def XRPValue_one is_valid_def is_native_def isNaN_def pow10_def)
subsection \<open>C10: a zero value that is negative\<close>

text \<open>Every store through \<^verbatim>\<open>_set_value\<close> leaves a value that is not both zero and negative.\<close>

lemma stored_zero_not_negative: "\<not> (isZero (stored v) \<and> isNegative (stored v))"
  by (cases "vnum v") (auto simp: stored_def isZero_def isNegative_def Value_negate_def)

lemma set_value_zero_not_negative:
  "set_value strict a v = Inr r \<Longrightarrow> \<not> (is_zero r \<and> is_negative r)"
  using stored_zero_not_negative [of v]
  by (auto simp: set_value_cases is_zero_def is_negative_def stored_def split: if_splits)

lemma copy_zero_not_negative:
  "copy strict a v = Inr r \<Longrightarrow> \<not> (is_zero r \<and> is_negative r)"
  unfolding copy_def by (rule set_value_zero_not_negative)

lemma negate_of_zero:
  "is_zero b \<Longrightarrow> is_zero (Amount_negate b) \<and> is_negative (Amount_negate b) = (\<not> is_negative b)"
  by (cases "vnum (amt_value b)")
    (simp_all add: is_zero_def is_negative_def Amount_negate_def clone_def copyTo_def
      Value_negate_def isZero_def isNegative_def)

lemma zero_integer:
  "integer_string ''0''" "integer_digits ''0'' = ''0''" "nat_of_digits ''0'' = 0"
  "\<not> integer_negative ''0''"
  by (simp_all add: integer_string_def integer_digits_def all_digits_def is_digit_chars
      nat_of_digits_def digit_val_def integer_negative_def)

lemma from_json_zero:
  "from_json env strict (J_string ''0'') =
     Inr \<lparr>amt_value = \<lparr>vclass = XRP, vnum = zero_dec\<rparr>, amt_is_native = True,
          amt_currency = Currency_from_json env ''0'',
          amt_issuer = UInt160_from_json env ''0''\<rparr>"
  by (simp add: from_json_integer [OF zero_integer(1)] zero_integer drops_dec_def)

text \<open>
  C10 states an invariant that \<^verbatim>\<open>_set_value\<close> is written to keep and that \<^verbatim>\<open>negate\<close>
  breaks: \<^verbatim>\<open>negate()\<close> is \<^verbatim>\<open>clone('NEGATE')\<close>, and \<^verbatim>\<open>copyTo\<close> stores \<^verbatim>\<open>value.negate()\<close>
  without \<^verbatim>\<open>_set_value\<close>.  The Amount that \<^verbatim>\<open>from_json('0')\<close> gives is zero and not
  negative; its negation is zero and negative.  The same holds for every Amount that is
  zero and not negative.
\<close>

theorem negate_zero_is_negative:
  "(\<exists>a. from_json env strict (J_string ''0'') = Inr a
        \<and> is_valid a \<and> is_zero a \<and> \<not> is_negative a
        \<and> is_valid (Amount_negate a)
        \<and> is_zero (Amount_negate a) \<and> is_negative (Amount_negate a))
   \<and> (is_zero b \<and> \<not> is_negative b
        \<longrightarrow> is_zero (Amount_negate b) \<and> is_negative (Amount_negate b))"
proof -
  define a where "a = \<lparr>amt_value = \<lparr>vclass = XRP, vnum = zero_dec\<rparr>, amt_is_native = True,
          amt_currency = Currency_from_json env ''0'',
          amt_issuer = UInt160_from_json env ''0''\<rparr>"
  have f: "from_json env strict (J_string ''0'') = Inr a"
    unfolding a_def by (rule from_json_zero)
  have z: "is_valid a" "is_zero a" "\<not> is_negative a"
    by (simp_all add: a_def is_valid_def is_zero_def is_negative_def isNaN_def isZero_def
        isNegative_def zero_dec_def)
  have n: "is_valid (Amount_negate a)" "is_zero (Amount_negate a)" "is_negative (Amount_negate a)"
    using z negate_of_zero [OF z(2)] by (simp_all add: Amount_negate_fields)
  show ?thesis
    using f z n negate_of_zero [of b] by blast
qed

theorem negate_zero_is_negative_witness:
  "from_json example_env True (J_string ''0'') = Inr zero_XRP
   \<and> is_valid zero_XRP \<and> is_zero zero_XRP \<and> \<not> is_negative zero_XRP
   \<and> is_valid (Amount_negate zero_XRP)
   \<and> is_zero (Amount_negate zero_XRP) \<and> is_negative (Amount_negate zero_XRP)"
proof -
  have f: "from_json example_env True (J_string ''0'') = Inr zero_XRP"
    by (simp add: from_json_zero example_env_fields zero_XRP_def)
  have z: "is_valid zero_XRP" "is_zero zero_XRP \<and> \<not> is_negative zero_XRP"
    by (simp_all add: zero_XRP_def is_valid_def is_zero_def is_negative_def isNaN_def isZero_def
        isNegative_def zero_dec_def)
  show ?thesis
    using negate_zero_is_negative [of example_env True zero_XRP] f z
    by (simp add: Amount_negate_fields)
qed

subsection \<open>Quality strings\<close>

lemma is_hex_code:
  "is_hex c \<longleftrightarrow> (48 \<le> (of_char c :: nat) \<and> (of_char c :: nat) \<le> 57)
     \<or> (65 \<le> (of_char c :: nat) \<and> (of_char c :: nat) \<le> 70)
     \<or> (97 \<le> (of_char c :: nat) \<and> (of_char c :: nat) \<le> 102)"
  by (auto simp: is_hex_def hex_val_def Let_def)

lemma is_hex_not_special:
  assumes "is_hex c"
  shows "\<not> is_space c" "c \<noteq> CHR ''-''" "c \<noteq> CHR ''+''" "c \<noteq> CHR ''x''" "c \<noteq> CHR ''X''"
  using assms by (auto simp: is_hex_code is_space_def)

lemma parseInt16_two_hex:
  assumes "is_hex a" "is_hex b"
  shows "parseInt16 [a, b] = Some (int (nat_of_hex [a, b]))"
  using assms is_hex_not_special [OF assms(1)] is_hex_not_special [OF assms(2)]
  by (simp add: parseInt16_def Let_def strip_sign_def strip_0x_def)

subsection \<open>Quality strings\<close>

lemma quality_fields:
  assumes len: "16 \<le> length q" and hex: "list_all is_hex (drop (length q - 16) q)"
  shows "quality_mantissa q = Inr (IOUValue (int (nat_of_hex (drop (length q - 14) q))) 0)"
    and "quality_offset q = Some (int (nat_of_hex (take 2 (drop (length q - 16) q))) - 100)"
proof -
  define t where "t = drop (length q - 16) q"
  have lt: "length t = 16" using len by (simp add: t_def)
  have "length q - 14 = 2 + (length q - 16)" using len by simp
  then have d14: "drop (length q - 14) q = drop 2 t"
    by (simp only: t_def drop_drop)
  have h14: "list_all is_hex (drop 2 t)"
    using hex unfolding t_def [symmetric] list_all_iff by (auto dest: in_set_dropD)
  have ne: "drop 2 t \<noteq> []" using lt by auto
  have ci: "clamp_index q (int (length q) - 14) = length q - 14"
    using len by (simp add: clamp_index_def)
  show "quality_mantissa q = Inr (IOUValue (int (nat_of_hex (drop (length q - 14) q))) 0)"
    using h14 ne by (simp add: quality_mantissa_def substring_from_def ci IOUValue_of_hex_def d14)
  have c16: "clamp_index q (int (length q) - 16) = length q - 16"
    using len by (simp add: clamp_index_def)
  have sub: "substring q (int (length q) - 16) (int (length q) - 14) = take 2 t"
  proof -
    have le: "length q - 16 \<le> length q - 14" by simp
    have two: "length q - (14 + (length q - 16)) = 2" using len by simp
    show ?thesis
      by (simp add: substring_def Let_def ci c16 t_def min_absorb1 [OF le] max_absorb2 [OF le] two)
  qed
  obtain a b r where t: "t = a # b # r"
    using lt by (cases t; cases "tl t") auto
  have "is_hex a" "is_hex b" using hex unfolding t_def [symmetric] t by simp_all
  then have "parseInt16 (take 2 t) = Some (int (nat_of_hex (take 2 t)))"
    unfolding t by (simp add: parseInt16_two_hex)
  then show "quality_offset q = Some (int (nat_of_hex (take 2 (drop (length q - 16) q))) - 100)"
    by (simp add: quality_offset_def sub t_def)
qed

lemma set_value_error:
  "set_value strict a v = Inl e \<Longrightarrow> strict \<and> (e = Exceeding_max_value \<or> e = Exceeding_min_value)"
  by (simp add: set_value_cases split: if_splits)

lemma set_value_lax: "\<exists>r. set_value False a v = Inr r"
  by (simp add: set_value_cases)

lemma parse_quality_both_native:
  assumes "16 \<le> length q" and "list_all is_hex (drop (length q - 16) q)"
    and "Currency_is_native cc \<and> Currency_is_native (opt_base_currency opts)"
  shows "parse_quality env strict this q cc ci opts = Inl XRP_XRP_quality_not_allowed"
  using assms(3)
  by (simp add: parse_quality_def Let_def quality_fields(1) [OF assms(1,2)] and_then_def)

lemma parse_quality_pipeline:
  assumes "16 \<le> length q" and "list_all is_hex (drop (length q - 16) q)"
    and "\<not> (Currency_is_native cc \<and> Currency_is_native (opt_base_currency opts))"
  shows "parse_quality env strict this q cc ci opts =
     and_then (nativeAdjusted (Currency_is_native cc)
                 (IOUValue (int (nat_of_hex (drop (length q - 14) q))) 0)
                 (Some (int (nat_of_hex (take 2 (drop (length q - 16) q))) - 100)) opts)
       (\<lambda>adjusted.
          and_then (if Currency_is_native cc
                    then and_then (XRPValue_round6 adjusted)
                           (set_value strict
                              (this\<lparr>amt_currency := cc, amt_issuer := ci, amt_is_native := True\<rparr>))
                    else set_value strict
                           (this\<lparr>amt_currency := cc, amt_issuer := ci, amt_is_native := False\<rparr>)
                           adjusted)
            (\<lambda>this2.
               case opt_reference_date opts of
                 None \<Rightarrow> Inr this2
               | Some d \<Rightarrow>
                   if d \<noteq> 0 \<and> Currency_has_interest (opt_base_currency opts)
                   then and_then (Value_divide (amt_value this2)
                                    (interest_value env (opt_base_currency opts) d))
                          (set_value strict this2)
                   else Inr this2))"
proof -
  have valid: "(n \<noteq> 0 \<and> Currency_is_valid c \<and> Currency_has_interest c)
      = (n \<noteq> 0 \<and> Currency_has_interest c)" for c and n :: int
    by (cases c) (simp_all add: Currency_has_interest_def Currency_is_valid_def)
  show ?thesis
    using assms(3)
    unfolding parse_quality_def Let_def
      quality_fields(1) [OF assms(1,2)] quality_fields(2) [OF assms(1,2)] valid
    by (cases "Currency_is_native cc") (simp_all add: and_then_def)
qed

subsection \<open>Steps that do not throw\<close>

lemma canon_iou_Dec: "\<exists>c' e'. canon_iou down neg c e = Dec neg c' e'"
  by (simp add: canon_iou_def split: prod.splits)

lemma canon_xrp_Dec: "\<exists>c' e'. canon_xrp neg c e = Dec neg c' e'"
  by (simp add: canon_xrp_def Let_def)

lemma canonicalize_Inr:
  "d \<noteq> NaN \<Longrightarrow> \<exists>w. canonicalize k d = Inr w \<and> \<not> isNaN w \<and> vclass w = k"
proof (cases d)
  case NaN
  assume "d \<noteq> NaN"
  then show ?thesis using NaN by simp
next
  case (Infinity s)
  then show ?thesis by (simp add: canonicalize_def isNaN_def)
next
  case (Dec neg c e)
  obtain c1 e1 where 1: "canon_iou False neg c e = Dec neg c1 e1" using canon_iou_Dec by blast
  obtain c2 e2 where 2: "canon_xrp neg c e = Dec neg c2 e2" using canon_xrp_Dec by blast
  show ?thesis using Dec 1 2 by (cases k) (simp_all add: canonicalize_def isNaN_def)
qed

lemma canonicalize_error: "canonicalize k d = Inl e \<Longrightarrow> e = Invalid_result"
  by (cases d) (simp_all add: canonicalize_def)

lemma Value_divide_error:
  "Value_divide a b = Inl e \<Longrightarrow> e = Invalid_result \<or> e = Divide_by_zero"
  by (auto simp: Value_divide_def Let_def split: if_splits dest: canonicalize_error)

lemma in_drops_unit: "in_drops k bi_xns_unit = bi_xns_unit" "\<not> isZero bi_xns_unit"
  by (simp_all add: in_drops_def bi_xns_unit_eq isZero_def)

lemma Value_invert_Inr:
  "\<not> isNaN v \<Longrightarrow> \<exists>w. Value_invert v = Inr w \<and> \<not> isNaN w \<and> vclass w = vclass v"
proof -
  assume "\<not> isNaN v"
  then have "div_dec (Dec False 1 0) (vnum v) \<noteq> NaN"
    by (cases "vnum v") (simp_all add: isNaN_def)
  then show ?thesis unfolding Value_invert_def by (rule canonicalize_Inr)
qed

lemma Value_divide_unit_Inr:
  "\<not> isNaN v \<Longrightarrow> \<exists>w. Value_divide v bi_xns_unit = Inr w \<and> \<not> isNaN w \<and> vclass w = vclass v"
proof -
  assume "\<not> isNaN v"
  then have "div_dec (vnum v) (vnum bi_xns_unit) \<noteq> NaN"
    by (cases "vnum v") (simp_all add: isNaN_def bi_xns_unit_eq)
  then show ?thesis
    unfolding Value_divide_def Let_def in_drops_unit
    by (simp add: in_drops_unit canonicalize_Inr)
qed

lemma Value_multiply_unit_Inr:
  "\<not> isNaN v \<Longrightarrow> \<exists>w. Value_multiply v bi_xns_unit = Inr w \<and> \<not> isNaN w \<and> vclass w = vclass v"
proof -
  assume "\<not> isNaN v"
  then have "times_dec (vnum v) (vnum bi_xns_unit) \<noteq> NaN"
    by (cases "vnum v") (simp_all add: isNaN_def bi_xns_unit_eq)
  then show ?thesis
    unfolding Value_multiply_def in_drops_unit by (rule canonicalize_Inr)
qed

lemma XRPValue_round6_Inr:
  "\<not> isNaN v \<Longrightarrow> \<exists>w. XRPValue_round6 v = Inr w \<and> \<not> isNaN w \<and> vclass w = XRP"
  by (cases "vnum v") (simp_all add: XRPValue_round6_def isNaN_def zero_dec_def canon_xrp_def Let_def)

lemma IOUValue_nat: "vnum (IOUValue (int m) 0) = canon_iou False False m 0"
  by (simp add: IOUValue_def)

lemma IOUValue_e_Inr:
  "\<exists>w. IOUValue_e (IOUValue (int m) 0) (Some k) = Inr w \<and> \<not> isNaN w \<and> vclass w = IOU"
proof -
  obtain c e where 1: "vnum (IOUValue (int m) 0) = Dec False c e"
    unfolding IOUValue_nat using canon_iou_Dec by blast
  obtain c' e' where 2: "canon_iou False False c (e + k) = Dec False c' e'"
    using canon_iou_Dec by blast
  show ?thesis by (simp add: IOUValue_e_def 1 2 isNaN_def)
qed

lemma nativeAdjusted_Inr:
  "\<exists>w. nativeAdjusted n (IOUValue (int m) 0) (Some k) opts = Inr w \<and> \<not> isNaN w"
proof -
  obtain v0 where v0: "IOUValue_e (IOUValue (int m) 0) (Some k) = Inr v0" "\<not> isNaN v0"
    using IOUValue_e_Inr by blast
  obtain v1 where v1: "(if opt_inverse opts then Value_invert v0 else Inr v0) = Inr v1"
    "\<not> isNaN v1"
    using Value_invert_Inr [OF v0(2)] v0(2) by (cases "opt_inverse opts") auto
  show ?thesis
    using Value_divide_unit_Inr [OF v1(2)] Value_multiply_unit_Inr [OF v1(2)] v1(2)
    by (auto simp: nativeAdjusted_def and_then_def v0(1) v1(1))
qed

lemma parse_quality_error:
  assumes "16 \<le> length q" and "list_all is_hex (drop (length q - 16) q)"
    and "\<not> (Currency_is_native cc \<and> Currency_is_native (opt_base_currency opts))"
    and "parse_quality env strict this q cc ci opts = Inl e"
  shows "(strict \<and> (e = Exceeding_max_value \<or> e = Exceeding_min_value))
     \<or> ((\<exists>d. opt_reference_date opts = Some d \<and> d \<noteq> 0)
         \<and> Currency_has_interest (opt_base_currency opts)
         \<and> (e = Invalid_result \<or> e = Divide_by_zero))"
proof -
  define m where "m = nat_of_hex (drop (length q - 14) q)"
  define k where "k = int (nat_of_hex (take 2 (drop (length q - 16) q))) - 100"
  obtain w where w: "nativeAdjusted (Currency_is_native cc) (IOUValue (int m) 0) (Some k) opts
      = Inr w" "\<not> isNaN w"
    using nativeAdjusted_Inr by blast
  obtain x where x: "XRPValue_round6 w = Inr x"
    using XRPValue_round6_Inr [OF w(2)] by blast
  define first where "first = (if Currency_is_native cc
       then set_value strict (this\<lparr>amt_currency := cc, amt_issuer := ci, amt_is_native := True\<rparr>) x
       else set_value strict (this\<lparr>amt_currency := cc, amt_issuer := ci, amt_is_native := False\<rparr>) w)"
  have pq: "parse_quality env strict this q cc ci opts =
     and_then first
       (\<lambda>this2.
          case opt_reference_date opts of
            None \<Rightarrow> Inr this2
          | Some d \<Rightarrow>
              if d \<noteq> 0 \<and> Currency_has_interest (opt_base_currency opts)
              then and_then (Value_divide (amt_value this2)
                               (interest_value env (opt_base_currency opts) d))
                     (set_value strict this2)
              else Inr this2)"
    unfolding parse_quality_pipeline [OF assms(1-3)] m_def [symmetric] k_def [symmetric] w(1)
      first_def
    by (simp add: and_then_def x)
  show ?thesis
  proof (cases first)
    case (Inl e')
    then have "e' = e" using assms(4) pq by (simp add: and_then_def)
    then show ?thesis
      using Inl set_value_error [of strict _ _ e] by (auto simp: first_def split: if_splits)
  next
    case (Inr this2)
    show ?thesis
      using assms(4) set_value_error [of strict this2 _ e]
        Value_divide_error [of "amt_value this2" _ e]
      unfolding pq Inr and_then_def
      by (auto split: option.splits if_splits sum.splits)
  qed
qed

lemma parse_quality_lax:
  assumes "16 \<le> length q" and "list_all is_hex (drop (length q - 16) q)"
    and "\<not> (Currency_is_native cc \<and> Currency_is_native (opt_base_currency opts))"
    and "opt_reference_date opts = None \<or> \<not> Currency_has_interest (opt_base_currency opts)"
  shows "\<exists>a. parse_quality env False this q cc ci opts = Inr a"
proof (cases "parse_quality env False this q cc ci opts")
  case (Inl e)
  then show ?thesis using parse_quality_error [OF assms(1-3) Inl] assms(4) by auto
next
  case (Inr a)
  then show ?thesis by blast
qed

lemma q1_hex:
  "nat_of_hex ''00000000000001'' = 1" "nat_of_hex ''00'' = 0"
  "list_all is_hex ''0000000000000001''"
  by (simp_all add: nat_of_hex_def hex_val_def is_hex_def)

lemma q2_hex:
  "nat_of_hex ''038D7EA4C68000'' = 1000000000000000" "nat_of_hex ''55'' = 85"
  "nat_of_hex ''FF'' = 255"
  "list_all is_hex ''55038D7EA4C68000''" "list_all is_hex ''FF038D7EA4C68000''"
  by (simp_all add: nat_of_hex_def hex_val_def is_hex_def)

lemma is_hex_chars:
  "is_hex CHR ''0''" "is_hex CHR ''1''" "is_hex CHR ''2''" "is_hex CHR ''3''" "is_hex CHR ''4''"
  "is_hex CHR ''5''" "is_hex CHR ''6''" "is_hex CHR ''7''" "is_hex CHR ''8''" "is_hex CHR ''9''"
  "is_hex CHR ''A''" "is_hex CHR ''B''" "is_hex CHR ''C''" "is_hex CHR ''D''" "is_hex CHR ''E''"
  "is_hex CHR ''F''"
  by (simp_all add: is_hex_def hex_val_def)

lemma q_values:
  "IOUValue_e (IOUValue 1 0) (Some (- 100))
     = Inr \<lparr>vclass = IOU, vnum = Dec False 1000000000000000 (- 115)\<rparr>"
  "IOUValue_e (IOUValue 1000000000000000 0) (Some (- 15))
     = Inr \<lparr>vclass = IOU, vnum = Dec False 1000000000000000 (- 15)\<rparr>"
  "IOUValue_e (IOUValue 1000000000000000 0) (Some 155)
     = Inr \<lparr>vclass = IOU, vnum = Dec False 1000000000000000 155\<rparr>"
  by (simp_all add: IOUValue_e_def iou_ev)

lemma q_magnitudes:
  "magnitude \<lparr>vclass = IOU, vnum = Dec False 1000000000000000 (- 115)\<rparr> = 1 / 10 ^ 100"
  "magnitude \<lparr>vclass = IOU, vnum = Dec False 1000000000000000 (- 15)\<rparr> = 1"
  "magnitude \<lparr>vclass = IOU, vnum = Dec False 1000000000000000 155\<rparr> = 10 ^ 170"
  by (simp_all add: magnitude_def pow10_def)

lemma not_native_iso: "\<not> Currency_is_native (Currency_iso c)"
  by (simp add: Currency_is_native_def)

lemma plain_opts_fields:
  "opt_inverse (plain_opts b) = False" "opt_base_currency (plain_opts b) = b"
  "opt_reference_date (plain_opts b) = None" "opt_xrp_as_drops (plain_opts b) = False"
  by (simp_all add: plain_opts_def)

lemma plain_adjusted:
  "\<not> Currency_is_native b \<Longrightarrow>
     nativeAdjusted False m k (plain_opts b) = IOUValue_e m k"
  by (cases "IOUValue_e m k") (simp_all add: nativeAdjusted_def and_then_def plain_opts_fields)

lemma pq_min:
  "parse_quality example_env True new_Amount ''0000000000000001'' (Currency_iso ''USD'')
     (UInt160 1) (plain_opts (Currency_iso ''EUR'')) = Inl Exceeding_min_value"
  by (subst parse_quality_pipeline)
    (simp_all add: q1_hex not_native_iso plain_opts_fields plain_adjusted q_values and_then_def
      set_value_cases q_magnitudes isNaN_def isZero_def is_hex_chars)

lemma pq_max:
  "parse_quality example_env True new_Amount ''FF038D7EA4C68000'' (Currency_iso ''USD'')
     (UInt160 1) (plain_opts (Currency_iso ''EUR'')) = Inl Exceeding_max_value"
  by (subst parse_quality_pipeline)
    (simp_all add: q2_hex not_native_iso plain_opts_fields plain_adjusted q_values and_then_def
      set_value_cases q_magnitudes isNaN_def isZero_def is_hex_chars)

lemma pq_one:
  "parse_quality example_env True new_Amount ''55038D7EA4C68000'' (Currency_iso ''USD'')
     (UInt160 1) (plain_opts (Currency_iso ''EUR'')) = Inr one_USD"
  by (subst parse_quality_pipeline)
    (simp_all add: q2_hex not_native_iso plain_opts_fields plain_adjusted q_values and_then_def
      set_value_cases q_magnitudes isNaN_def isZero_def isNegative_def is_hex_chars one_USD_def
      new_Amount_def Amount_with_def one_USD_value [unfolded one_USD_def, simplified])

subsection \<open>C6: when \<^verbatim>\<open>parse_quality\<close> throws\<close>

text \<open>
  C6, as the claim states it, fails: in strict mode the range check of \<^verbatim>\<open>_set_value\<close> throws
  as well.  The quality \<open>0000000000000001\<close> is \<open>1 * 10 ^ - 100\<close>, below the least issued
  value, with counter currency USD and base currency EUR.
\<close>

theorem parse_quality_range_throw:
  "\<not> (Currency_is_native (Currency_iso ''USD'')
        \<and> Currency_is_native (opt_base_currency (plain_opts (Currency_iso ''EUR''))))
   \<and> parse_quality example_env True new_Amount ''0000000000000001'' (Currency_iso ''USD'')
        (UInt160 1) (plain_opts (Currency_iso ''EUR'')) = Inl Exceeding_min_value"
  using pq_min by (simp add: not_native_iso)

text \<open>
  C6, amended.  For every quality string of at least 16 characters whose last 16 are
  hexadecimal digits, \<^verbatim>\<open>parse_quality\<close> throws the error \<open>XRP/XRP quality is not allowed\<close>
  exactly when both the counter currency and the base currency are native.  With strict
  mode off and no division by an interest factor (no reference date, or a base currency
  without interest) this is the only throw.  Every other throw is one of the range check
  on the stored value, in strict mode, or one of the division by the interest factor
  (\<open>Invalid result\<close> or \<open>divide by zero\<close>).
\<close>

theorem parse_quality_throws:
  assumes "16 \<le> length q" and "list_all is_hex (drop (length q - 16) q)"
  shows "(parse_quality env strict this q cc ci opts = Inl XRP_XRP_quality_not_allowed
      \<longleftrightarrow> Currency_is_native cc \<and> Currency_is_native (opt_base_currency opts))
   \<and> (opt_reference_date opts = None \<or> \<not> Currency_has_interest (opt_base_currency opts) \<longrightarrow>
        ((\<exists>e. parse_quality env False this q cc ci opts = Inl e)
         \<longleftrightarrow> Currency_is_native cc \<and> Currency_is_native (opt_base_currency opts)))
   \<and> (\<forall>e. parse_quality env strict this q cc ci opts = Inl e
          \<and> \<not> (Currency_is_native cc \<and> Currency_is_native (opt_base_currency opts))
        \<longrightarrow> (strict \<and> (e = Exceeding_max_value \<or> e = Exceeding_min_value))
            \<or> ((\<exists>d. opt_reference_date opts = Some d \<and> d \<noteq> 0)
                \<and> Currency_has_interest (opt_base_currency opts)
                \<and> (e = Invalid_result \<or> e = Divide_by_zero)))"
proof (intro conjI impI allI)
  show "parse_quality env strict this q cc ci opts = Inl XRP_XRP_quality_not_allowed
      \<longleftrightarrow> Currency_is_native cc \<and> Currency_is_native (opt_base_currency opts)"
  proof (cases "Currency_is_native cc \<and> Currency_is_native (opt_base_currency opts)")
    case True
    have "parse_quality env strict this q cc ci opts = Inl XRP_XRP_quality_not_allowed"
      by (rule parse_quality_both_native [OF assms True])
    then show ?thesis using True by simp
  next
    case False
    have "parse_quality env strict this q cc ci opts \<noteq> Inl XRP_XRP_quality_not_allowed"
      using parse_quality_error [OF assms False] by fastforce
    then show ?thesis using False by simp
  qed
next
  assume d: "opt_reference_date opts = None \<or> \<not> Currency_has_interest (opt_base_currency opts)"
  show "(\<exists>e. parse_quality env False this q cc ci opts = Inl e)
      \<longleftrightarrow> Currency_is_native cc \<and> Currency_is_native (opt_base_currency opts)"
  proof (cases "Currency_is_native cc \<and> Currency_is_native (opt_base_currency opts)")
    case True
    have "parse_quality env False this q cc ci opts = Inl XRP_XRP_quality_not_allowed"
      by (rule parse_quality_both_native [OF assms True])
    then show ?thesis using True by simp
  next
    case False
    have "\<exists>a. parse_quality env False this q cc ci opts = Inr a"
      by (rule parse_quality_lax [OF assms False d])
    then show ?thesis using False by auto
  qed
next
  fix e
  assume "parse_quality env strict this q cc ci opts = Inl e
          \<and> \<not> (Currency_is_native cc \<and> Currency_is_native (opt_base_currency opts))"
  then show "(strict \<and> (e = Exceeding_max_value \<or> e = Exceeding_min_value))
            \<or> ((\<exists>d. opt_reference_date opts = Some d \<and> d \<noteq> 0)
                \<and> Currency_has_interest (opt_base_currency opts)
                \<and> (e = Invalid_result \<or> e = Divide_by_zero))"
    using parse_quality_error [OF assms] by blast
qed

theorem parse_quality_throws_witness:
  "16 \<le> length ''0000000000000001''
   \<and> list_all is_hex (drop (length ''0000000000000001'' - 16) ''0000000000000001'')
   \<and> Currency_is_native Currency_native
   \<and> Currency_is_native (opt_base_currency (plain_opts Currency_native))
   \<and> parse_quality example_env True new_Amount ''0000000000000001'' Currency_native
        (UInt160 0) (plain_opts Currency_native) = Inl XRP_XRP_quality_not_allowed
   \<and> opt_reference_date (plain_opts (Currency_iso ''EUR'')) = None
   \<and> (\<exists>a. parse_quality example_env False new_Amount ''0000000000000001'' (Currency_iso ''USD'')
        (UInt160 1) (plain_opts (Currency_iso ''EUR'')) = Inr a)
   \<and> parse_quality example_env True new_Amount ''0000000000000001'' (Currency_iso ''USD'')
        (UInt160 1) (plain_opts (Currency_iso ''EUR'')) = Inl Exceeding_min_value"
proof -
  have h: "16 \<le> length ''0000000000000001''"
    "list_all is_hex (drop (length ''0000000000000001'' - 16) ''0000000000000001'')"
    by (simp_all add: is_hex_chars)
  note n = parse_quality_throws [OF h, of example_env True new_Amount Currency_native "UInt160 0"
      "plain_opts Currency_native"]
  note i = parse_quality_throws [OF h, of example_env True new_Amount "Currency_iso ''USD''"
      "UInt160 1" "plain_opts (Currency_iso ''EUR'')"]
  have lax: "\<exists>a. parse_quality example_env False new_Amount ''0000000000000001''
      (Currency_iso ''USD'') (UInt160 1) (plain_opts (Currency_iso ''EUR'')) = Inr a"
    using i by (cases "parse_quality example_env False new_Amount ''0000000000000001''
      (Currency_iso ''USD'') (UInt160 1) (plain_opts (Currency_iso ''EUR''))")
      (auto simp: not_native_iso plain_opts_fields)
  show ?thesis
    using n lax pq_min h
    by (simp add: plain_opts_fields Currency_is_native_def)
qed

subsection \<open>C7: the wire text\<close>

lemma is_digit_digit_char: "is_digit (digit_char n)"
proof -
  have "n mod 10 < length ''0123456789''" by simp
  then have "''0123456789'' ! (n mod 10) \<in> set ''0123456789''" by (rule nth_mem)
  then show ?thesis by (simp only: is_digit_def digit_char_def)
qed

lemma digits_of_digits: "list_all is_digit (digits_of n)"
proof (induction n rule: digits_of.induct)
  case (1 n)
  show ?case
  proof (cases "n < 10")
    case True
    then show ?thesis by (subst digits_of.simps) (simp add: is_digit_digit_char)
  next
    case False
    then show ?thesis using 1 by (subst digits_of.simps) (simp add: is_digit_digit_char)
  qed
qed

lemma length_digits_of: "length (digits_of n) = ndigits n"
proof (induction n rule: digits_of.induct)
  case (1 n)
  show ?case
  proof (cases "n < 10")
    case True
    then show ?thesis by (subst digits_of.simps, subst ndigits.simps) simp
  next
    case False
    then show ?thesis using 1 by (subst digits_of.simps, subst ndigits.simps) simp
  qed
qed

lemma digit_not_terminator: "is_digit c \<Longrightarrow> \<not> line_terminator c"
  by (auto simp: is_digit_cases line_terminator_def)

lemma digit_nonzero: "is_digit c \<Longrightarrow> is_1_to_9 c = (\<not> is_zero_char c)"
  by (auto simp: is_digit_cases is_1_to_9_def is_zero_char_def)

lemma digits_no_terminator: "list_all is_digit s \<Longrightarrow> \<not> list_ex line_terminator s"
  by (induction s) (auto simp: digit_not_terminator)

lemma match_nonzero_rest_digits:
  assumes "list_all is_digit s"
  shows "match_nonzero_rest s =
     (if dropWhile is_zero_char s = [] then None else Some (dropWhile is_zero_char s))"
  using assms
proof (induction s)
  case Nil
  then show ?case by simp
next
  case (Cons c r)
  then have c: "is_digit c" and r: "list_all is_digit r" by simp_all
  show ?case
    using Cons.IH [OF r] digits_no_terminator [OF r] digit_nonzero [OF c] by simp
qed

lemma strip_trailing_zeros_Cons:
  "strip_trailing_zeros (c # r) =
     (if strip_trailing_zeros r = [] then (if is_zero_char c then [] else [c])
      else c # strip_trailing_zeros r)"
proof (cases "list_all is_zero_char r")
  case True
  then have 1: "dropWhile is_zero_char (rev r) = []" by (simp add: list_all_iff)
  have 2: "dropWhile is_zero_char (rev r @ [c]) = dropWhile is_zero_char [c]"
    using True by (intro dropWhile_append2) (simp add: list_all_iff)
  show ?thesis by (simp add: strip_trailing_zeros_def 1 2)
next
  case False
  then obtain x where "x \<in> set (rev r)" "\<not> is_zero_char x" by (auto simp: list_all_iff)
  then have "dropWhile is_zero_char (rev r @ [c]) = dropWhile is_zero_char (rev r) @ [c]"
    and "dropWhile is_zero_char (rev r) \<noteq> []"
    by (auto simp: dropWhile_append1 dropWhile_eq_Nil_conv)
  then show ?thesis by (simp add: strip_trailing_zeros_def)
qed

lemma strip_trailing_zeros_Nil: "strip_trailing_zeros s = [] \<longleftrightarrow> list_all is_zero_char s"
  by (auto simp: strip_trailing_zeros_def dropWhile_eq_Nil_conv list_all_iff)

lemma match_nonzero_zeros_length:
  "match_nonzero_zeros s = Some x \<Longrightarrow> length x \<le> length s \<and> x \<noteq> []"
  by (induction s) (auto split: if_splits)

lemma match_nonzero_zeros_digits:
  assumes "list_all is_digit s"
  shows "(case match_nonzero_zeros s of
            Some x \<Rightarrow> take (Suc (length s) - length x) s
          | None \<Rightarrow> []) = strip_trailing_zeros s
         \<and> (match_nonzero_zeros s = None \<longleftrightarrow> strip_trailing_zeros s = [])"
  using assms
proof (induction s)
  case Nil
  then show ?case by (simp add: strip_trailing_zeros_def)
next
  case (Cons c r)
  then have c: "is_digit c" and r: "list_all is_digit r" by simp_all
  note IH = Cons.IH [OF r]
  show ?case
  proof (cases "is_1_to_9 c \<and> list_all is_zero_char r")
    case True
    then have "strip_trailing_zeros (c # r) = [c]"
      using digit_nonzero [OF c] by (simp add: strip_trailing_zeros_Cons strip_trailing_zeros_Nil)
    then show ?thesis using True by simp
  next
    case False
    show ?thesis
    proof (cases "match_nonzero_zeros r")
      case None
      then have z: "list_all is_zero_char r" using IH by (simp add: strip_trailing_zeros_Nil)
      then have "is_zero_char c" using False digit_nonzero [OF c] by simp
      then show ?thesis
        using False None z by (simp add: strip_trailing_zeros_Cons strip_trailing_zeros_Nil)
    next
      case (Some x)
      then have ne: "strip_trailing_zeros r \<noteq> []" using IH by simp
      have len: "length x \<le> length r" using match_nonzero_zeros_length [OF Some] by simp
      have "take (Suc (length r) - length x) r = strip_trailing_zeros r"
        using IH Some by simp
      then show ?thesis
        using False Some ne len by (simp add: strip_trailing_zeros_Cons Suc_diff_le)
    qed
  qed
qed

lemma substring_take: "0 \<le> k \<Longrightarrow> substring s 0 k = take (nat k) s"
  by (simp add: substring_def clamp_index_def Let_def min_def)

lemma substring_from_drop: "0 \<le> k \<Longrightarrow> substring_from s k = drop (nat k) s"
  by (simp add: substring_from_def clamp_index_def min_def)

lemma getMantissa16_digits: "list_all is_digit (getMantissa16 v)"
proof -
  have z: "is_digit CHR ''0''" by (simp add: is_digit_def)
  have "list_all is_digit (digits_of (dec_coef (vnum v)) @ replicate 16 CHR ''0'')"
    using digits_of_digits z by (simp add: list_all_iff)
  then show ?thesis
    unfolding getMantissa16_def list_all_iff by (auto dest: in_set_takeD)
qed

lemma window_digits:
  assumes "list_all is_digit m"
  shows "list_all is_digit (''000000000000000000000000000'' @ m @ ''00000000000000000000000'')"
  using assms by (simp add: is_digit_def)

lemma window_replicate:
  "''000000000000000000000000000'' @ m @ ''00000000000000000000000''
     = replicate 27 CHR ''0'' @ m @ replicate 23 CHR ''0''"
  by (simp add: numeral_eq_Suc)

lemma fixed_text:
  assumes m: "list_all is_digit m" and k: "0 \<le> e + 43"
  shows "window_text m e = fixed_point m e"
proof -
  define val where "val = replicate 27 CHR ''0'' @ m @ replicate 23 CHR ''0''"
  have lit: "''000000000000000000000000000'' @ m @ ''00000000000000000000000'' = val"
    unfolding val_def by (rule window_replicate)
  have vd: "list_all is_digit val" unfolding lit [symmetric] by (rule window_digits [OF m])
  define pre where "pre = take (nat (e + 43)) val"
  define post where "post = drop (nat (e + 43)) val"
  have pd: "list_all is_digit pre" "list_all is_digit post"
    using vd unfolding pre_def post_def list_all_iff
    by (auto dest: in_set_takeD in_set_dropD)
  have 1: "(case match_nonzero_rest pre of Some x \<Rightarrow> x | None \<Rightarrow> ''0'')
      = (if dropWhile is_zero_char pre = [] then ''0'' else dropWhile is_zero_char pre)"
    by (simp add: match_nonzero_rest_digits [OF pd(1)])
  have 2: "(case match_nonzero_zeros post of
         Some x \<Rightarrow> ''.'' @ substring post 0 (1 + int (length post) - int (length x))
       | None \<Rightarrow> [])
      = (if strip_trailing_zeros post = [] then [] else CHR ''.'' # strip_trailing_zeros post)"
  proof (cases "match_nonzero_zeros post")
    case None
    then show ?thesis using match_nonzero_zeros_digits [OF pd(2)] by simp
  next
    case (Some x)
    have len: "length x \<le> length post" using match_nonzero_zeros_length [OF Some] by simp
    then have "nat (1 + int (length post) - int (length x)) = Suc (length post) - length x"
      by simp
    moreover have "0 \<le> 1 + int (length post) - int (length x)" using len by simp
    ultimately have "substring post 0 (1 + int (length post) - int (length x))
        = take (Suc (length post) - length x) post"
      by (simp only: substring_take)
    then show ?thesis using match_nonzero_zeros_digits [OF pd(2)] Some by simp
  qed
  show ?thesis
    unfolding window_text_def Let_def fixed_point_def lit val_def [symmetric]
      substring_take [OF k] substring_from_drop [OF k] pre_def [symmetric] post_def [symmetric]
      1 2
    by (rule refl)
qed

lemma to_text_issued:
  assumes "is_valid a" "\<not> amt_is_native a"
  shows "to_text a =
     Inr (let e = getExponent (amt_value a) - 15;
              m = getMantissa16 (Value_abs (amt_value a));
              sign = (if isNegative (amt_value a) then ''-'' else [])
          in if e \<noteq> 0 \<and> (e < - 25 \<or> - 4 < e) then sign @ m @ ''e'' @ show_int e
             else sign @ fixed_point m e)"
proof -
  define e where "e = getExponent (amt_value a) - 15"
  have "window_text (getMantissa16 (Value_abs (amt_value a))) e
      = fixed_point (getMantissa16 (Value_abs (amt_value a))) e"
    if "\<not> (e \<noteq> 0 \<and> (e < - 25 \<or> - 4 < e))"
    using that by (intro fixed_text getMantissa16_digits) auto
  then show ?thesis
    using assms unfolding to_text_def Let_def e_def [symmetric] by auto
qed

lemma canonical_mantissa:
  assumes "vnum v = Dec neg c e" "ndigits c = 16"
  shows "getExponent v - 15 = e" "getMantissa16 (Value_abs v) = digits_of c"
proof -
  have "c \<noteq> 0"
  proof
    assume "c = 0"
    then have "ndigits c = 1" by (simp add: ndigits.simps)
    then show False using assms(2) by simp
  qed
  then show "getExponent v - 15 = e" using assms by (simp add: getExponent_def)
  have "length (digits_of c) = 16" using assms(2) by (simp add: length_digits_of)
  then show "getMantissa16 (Value_abs v) = digits_of c"
    using assms(1) by (simp add: getMantissa16_def Value_abs_def)
qed

lemma mult_div_units: "(d::nat) * 1000000000000000 div 1000000000 = d * 1000000"
proof -
  have "d * 1000000000000000 = (d * 1000000) * 1000000000" by simp
  then show ?thesis by (simp only: div_mult_self_is_m)
qed

lemma multiply_unit_drops:
  "Value_multiply \<lparr>vclass = XRP, vnum = drops_dec neg d\<rparr> bi_xns_unit =
     Inr \<lparr>vclass = XRP, vnum = (if d = 0 then Dec False 0 (- 100) else Dec neg (d * 1000000) (- 6))\<rparr>"
  unfolding Value_multiply_def in_drops_unit
  by (simp add: bi_xns_unit_eq drops_dec_def zero_dec_def canonicalize_def canon_xrp_def
      mult_div_units)

lemma ndigits_million: "0 < d \<Longrightarrow> ndigits (d * 1000000) = ndigits d + 6"
  using ndigits_shift [of d 6] by simp

lemma to_text_native:
  assumes "amt_is_native a" "amt_value a = \<lparr>vclass = XRP, vnum = drops_dec neg d\<rparr>"
    and "d < 10 ^ 21"
  shows "to_text a = Inr ((if neg \<and> d \<noteq> 0 then ''-'' else []) @ digits_of d)"
proof -
  have valid: "is_valid a"
    by (simp add: is_valid_def isNaN_def assms(2) drops_dec_def zero_dec_def)
  have product: "Value_multiply (amt_value a) bi_xns_unit =
      Inr \<lparr>vclass = XRP,
            vnum = (if d = 0 then Dec False 0 (- 100) else Dec neg (d * 1000000) (- 6))\<rparr>"
    unfolding assms(2) by (rule multiply_unit_drops)
  have tt: "to_text a = Inr (Value_toString \<lparr>vclass = XRP,
            vnum = (if d = 0 then Dec False 0 (- 100) else Dec neg (d * 1000000) (- 6))\<rparr>)"
    using valid assms(1) by (simp add: to_text_def product and_then_def)
  show ?thesis
  proof (cases "d = 0")
    case True
    then show ?thesis
      unfolding tt by (simp add: Value_toString_def digits_of.simps digit_char_def)
  next
    case False
    then have pos: "0 < d" by simp
    have "ndigits d \<le> 21" using pos assms(3) by (rule ndigits_le)
    moreover have "0 < ndigits d" by (rule ndigits_pos)
    ultimately have x: "\<not> (int (ndigits d + 6) - 7 < - 6 \<or> 20 < int (ndigits d + 6) - 7)"
      by simp
    have p: "plain_decimal (d * 1000000) (- 6) = digits_of d"
      by (simp add: plain_decimal_def Let_def)
    show ?thesis
      unfolding tt using False x
      by (simp add: Value_toString_def getExponent_def ndigits_million [OF pos] p)
  qed
qed

lemma strict_drops:
  assumes "amt_is_native a" "set_value True a \<lparr>vclass = XRP, vnum = drops_dec neg d\<rparr> = Inr r"
  shows "d \<le> 10 ^ 17"
proof (rule ccontr)
  assume "\<not> d \<le> 10 ^ 17"
  then have "10 ^ 17 < d" by simp
  then have "set_value True a \<lparr>vclass = XRP, vnum = drops_dec neg d\<rparr> = Inl Exceeding_max_value"
    using assms(1) by (simp add: set_value_cases drops_dec_props drops_limit)
  then show False using assms(2) by simp
qed

lemma show_int_neg15: "show_int 5 = ''5''" "show_int (- 30) = ''-30''"
  by (simp_all add: show_int_def digits_of.simps digit_char_def)

lemma sample_digits:
  "digits_of 1000000000000000 = ''1000000000000000''"
  "digits_of 1004000000000000 = ''1004000000000000''"
  "digits_of 1000000 = ''1000000''"
  "ndigits 1000000000000000 = 16" "ndigits 1004000000000000 = 16"
  by (simp_all add: digits_of.simps digit_char_def ndigits.simps)

lemma sample_fixed:
  "fixed_point ''1000000000000000'' (- 15) = ''1''"
  "fixed_point ''1004000000000000'' (- 13) = ''100.4''"
  by (simp_all add: fixed_point_def Let_def strip_trailing_zeros_def is_zero_char_def
      numeral_eq_Suc)

lemma issued_values:
  "IOUValue 1004 (- 1) = \<lparr>vclass = IOU, vnum = Dec False 1004000000000000 (- 13)\<rparr>"
  "IOUValue (- 1) 20 = \<lparr>vclass = IOU, vnum = Dec True 1000000000000000 5\<rparr>"
  by (simp_all add: iou_ev)

lemma sextillion:
  "integer_string ''1000000000000000000000''"
  "integer_digits ''1000000000000000000000'' = ''1000000000000000000000''"
  "nat_of_digits ''1000000000000000000000'' = 1000000000000000000000"
  "\<not> integer_negative ''1000000000000000000000''"
  by (simp_all add: integer_string_def integer_digits_def all_digits_def is_digit_chars
      nat_of_digits_def digit_val_def integer_negative_def)

lemma sextillion_text:
  "Value_toString \<lparr>vclass = XRP, vnum = Dec False 1000000000000000000000000000 (- 6)\<rparr> = ''1e+21''"
proof -
  have n: "ndigits 1000000000000000000000000000 = 28"
    by (simp add: ndigits.simps)
  have d: "digits_of 1000000000000000000000000000 = ''1000000000000000000000000000''"
    "digits_of 21 = ''21''"
    by (simp_all add: digits_of.simps digit_char_def)
  show ?thesis
    by (simp add: Value_toString_def getExponent_def n exponent_notation_def d
        strip_trailing_zeros_def is_zero_char_def)
qed

text \<open>
  C7, as the claim states it, fails for a native amount of \<open>10 ^ 21\<close> drops or more, which
  \<^verbatim>\<open>from_json\<close> accepts when strict mode is off: the text of \<open>10 ^ 21\<close> drops is \<open>1e+21\<close>
  and not the integer.
\<close>

theorem to_text_exponent_notation:
  "from_json example_env False (J_string ''1000000000000000000000'') = Inr sextillion_drops
   \<and> is_valid sextillion_drops \<and> amt_is_native sextillion_drops
   \<and> to_text sextillion_drops = Inr ''1e+21''"
proof -
  have f: "from_json example_env False (J_string ''1000000000000000000000'') = Inr sextillion_drops"
    by (simp add: from_json_integer [OF sextillion(1)] sextillion example_env_fields
        sextillion_drops_def drops_dec_def)
  have v: "is_valid sextillion_drops" "amt_is_native sextillion_drops"
    "amt_value sextillion_drops = \<lparr>vclass = XRP, vnum = drops_dec False 1000000000000000000000\<rparr>"
    by (simp_all add: sextillion_drops_def is_valid_def isNaN_def drops_dec_def)
  have "to_text sextillion_drops = Inr ''1e+21''"
    using v(1,2) by (simp add: to_text_def v(3) multiply_unit_drops and_then_def sextillion_text)
  then show ?thesis using f v(1,2) by simp
qed

text \<open>
  C7, amended.  \<^verbatim>\<open>to_text\<close> of an invalid Amount is \<open>NaN\<close>.  For a native Amount of \<open>d\<close>
  drops with \<open>d < 10 ^ 21\<close> it is the integer \<open>d\<close> with its sign, the text of the stored
  value times \<open>10 ^ 6\<close>; every native value that strict mode stores has at most \<open>10 ^ 17\<close>
  drops.  For an issued Amount with mantissa \<open>m\<close> and offset \<open>e\<close> (the exponent less 15)
  it is \<open>m\<close>, the letter \<open>e\<close> and \<open>e\<close> exactly when \<open>e \<noteq> 0\<close> and \<open>e\<close> is outside \<open>[-25, -4]\<close>,
  and otherwise the fixed-point text of \<open>m\<close> in the zero-padded window split at \<open>e + 43\<close>;
  a minus sign goes in front of a negative value.  For a value with a coefficient of 16
  digits, \<open>e\<close> is its exponent and \<open>m\<close> the 16 digits.
\<close>

theorem to_text_cases:
  "(\<not> is_valid a \<longrightarrow> to_text a = Inr ''NaN'')
   \<and> (amt_is_native a \<and> amt_value a = \<lparr>vclass = XRP, vnum = drops_dec neg d\<rparr> \<and> d < 10 ^ 21 \<longrightarrow>
        to_text a = Inr ((if neg \<and> d \<noteq> 0 then ''-'' else []) @ digits_of d))
   \<and> (amt_is_native b \<and> set_value True b \<lparr>vclass = XRP, vnum = drops_dec neg d\<rparr> = Inr r \<longrightarrow>
        d \<le> 10 ^ 17)
   \<and> (is_valid a \<and> \<not> amt_is_native a \<longrightarrow>
        to_text a =
          Inr (let e = getExponent (amt_value a) - 15;
                   m = getMantissa16 (Value_abs (amt_value a));
                   sign = (if isNegative (amt_value a) then ''-'' else [])
               in if e \<noteq> 0 \<and> (e < - 25 \<or> - 4 < e) then sign @ m @ ''e'' @ show_int e
                  else sign @ fixed_point m e))
   \<and> (vnum (amt_value a) = Dec n c x \<and> ndigits c = 16 \<longrightarrow>
        getExponent (amt_value a) - 15 = x
        \<and> getMantissa16 (Value_abs (amt_value a)) = digits_of c
        \<and> length (digits_of c) = 16)"
proof (intro conjI impI)
  assume "\<not> is_valid a"
  then show "to_text a = Inr ''NaN''" by (simp add: to_text_def)
next
  assume "amt_is_native a \<and> amt_value a = \<lparr>vclass = XRP, vnum = drops_dec neg d\<rparr> \<and> d < 10 ^ 21"
  then show "to_text a = Inr ((if neg \<and> d \<noteq> 0 then ''-'' else []) @ digits_of d)"
    using to_text_native by blast
next
  assume "amt_is_native b \<and> set_value True b \<lparr>vclass = XRP, vnum = drops_dec neg d\<rparr> = Inr r"
  then show "d \<le> 10 ^ 17" using strict_drops by blast
next
  assume "is_valid a \<and> \<not> amt_is_native a"
  then show "to_text a =
          Inr (let e = getExponent (amt_value a) - 15;
                   m = getMantissa16 (Value_abs (amt_value a));
                   sign = (if isNegative (amt_value a) then ''-'' else [])
               in if e \<noteq> 0 \<and> (e < - 25 \<or> - 4 < e) then sign @ m @ ''e'' @ show_int e
                  else sign @ fixed_point m e)"
    using to_text_issued by blast
next
  assume h: "vnum (amt_value a) = Dec n c x \<and> ndigits c = 16"
  then show "getExponent (amt_value a) - 15 = x"
    using canonical_mantissa(1) by blast
  from h show "getMantissa16 (Value_abs (amt_value a)) = digits_of c"
    using canonical_mantissa(2) by blast
  from h show "length (digits_of c) = 16" by (simp add: length_digits_of)
qed

theorem to_text_cases_witness:
  "\<not> is_valid new_Amount \<and> to_text new_Amount = Inr ''NaN''
   \<and> is_valid one_XRP \<and> amt_is_native one_XRP \<and> to_text one_XRP = Inr ''1000000''
   \<and> is_valid (issued (IOUValue 1004 (- 1))) \<and> \<not> amt_is_native (issued (IOUValue 1004 (- 1)))
   \<and> to_text (issued (IOUValue 1004 (- 1))) = Inr ''100.4''
   \<and> to_text (issued (IOUValue (- 1) 20)) = Inr ''-1000000000000000e5''
   \<and> to_text one_USD = Inr ''1''"
proof -
  have x: "amt_value one_XRP = \<lparr>vclass = XRP, vnum = drops_dec False 1000000\<rparr>"
    by (simp add: one_XRP_value drops_dec_def)
  have v: "is_valid (issued (IOUValue 1004 (- 1)))" "is_valid (issued (IOUValue (- 1) 20))"
    "\<not> amt_is_native (issued w)"
    "vnum (amt_value (issued (IOUValue 1004 (- 1)))) = Dec False 1004000000000000 (- 13)"
    "vnum (amt_value (issued (IOUValue (- 1) 20))) = Dec True 1000000000000000 5"
    "isNegative (amt_value (issued (IOUValue (- 1) 20)))"
    "\<not> isNegative (amt_value (issued (IOUValue 1004 (- 1))))"
    "vnum (amt_value one_USD) = Dec False 1000000000000000 (- 15)"
    "\<not> isNegative (amt_value one_USD)"
    for w
    by (simp_all add: issued_def issued_values is_valid_def isNaN_def isNegative_def
        one_USD_value)
  note t1 = to_text_cases [of "issued (IOUValue 1004 (- 1))" False 0 new_Amount new_Amount
      False 1004000000000000 "- 13"]
  note t2 = to_text_cases [of "issued (IOUValue (- 1) 20)" False 0 new_Amount new_Amount
      True 1000000000000000 5]
  note t3 = to_text_cases [of one_USD False 0 new_Amount new_Amount False 1000000000000000 "- 15"]
  have e1: "getExponent (amt_value (issued (IOUValue 1004 (- 1)))) - 15 = - 13"
    and m1: "getMantissa16 (Value_abs (amt_value (issued (IOUValue 1004 (- 1)))))
        = ''1004000000000000''"
    using t1 v(4) sample_digits by simp_all
  have e2: "getExponent (amt_value (issued (IOUValue (- 1) 20))) - 15 = 5"
    and m2: "getMantissa16 (Value_abs (amt_value (issued (IOUValue (- 1) 20))))
        = ''1000000000000000''"
    using t2 v(5) sample_digits by simp_all
  have e3: "getExponent (amt_value one_USD) - 15 = - 15"
    and m3: "getMantissa16 (Value_abs (amt_value one_USD)) = ''1000000000000000''"
    using t3 v(8) sample_digits by simp_all
  have r1: "to_text (issued (IOUValue 1004 (- 1))) = Inr ''100.4''"
    using t1 v(1,3,7) unfolding Let_def e1 m1 by (simp add: sample_fixed)
  have r2: "to_text (issued (IOUValue (- 1) 20)) = Inr ''-1000000000000000e5''"
    using t2 v(2,3,6) unfolding Let_def e2 m2 by (simp add: show_int_neg15)
  have r3: "to_text one_USD = Inr ''1''"
    using t3 one_valid(2) one_native(2) v(9) unfolding Let_def e3 m3 by (simp add: sample_fixed)
  have r4: "to_text one_XRP = Inr ''1000000''"
    using to_text_cases [of one_XRP False 1000000 new_Amount new_Amount False 0 0]
      one_native(1) x
    by (simp add: sample_digits)
  have r5: "to_text new_Amount = Inr ''NaN''"
    using to_text_cases [of new_Amount False 0 new_Amount new_Amount False 0 0]
      is_valid_new_Amount by simp
  show ?thesis
    using r1 r2 r3 r4 r5 by (simp add: is_valid_new_Amount one_valid one_native v)
qed

subsection \<open>C8: how a seed is read\<close>

lemma hex_not_s: "is_hex c \<Longrightarrow> c \<noteq> CHR ''s''"
  by (auto simp: is_hex_code)

text \<open>
  C8.  \<^verbatim>\<open>Seed.from_json\<close> at a string: the empty string gives an invalid seed.  A string
  that starts with \<open>s\<close> is decoded as checksummed base-58; on success the number and the
  key type are set, and otherwise the seed is invalid (such a string is no hexadecimal
  text and is not taken as a passphrase).  Any other string is read as 32 hexadecimal
  digits if it is that, and otherwise as a passphrase: the seed is the first 16 bytes of
  the SHA-512 of its bytes.  An argument that is not a string gives an invalid seed.
\<close>

theorem Seed_from_json_order:
  "Seed_from_json ext (SJ_string s) =
     (if s = [] then \<lparr>seed_value = None, seed_type = secp256k1\<rparr>
      else if hd s = CHR ''s'' then
        (case decodeSeed ext s of
           Some (bytes, type) \<Rightarrow> \<lparr>seed_value = Some (nat_of_bytes bytes), seed_type = type\<rparr>
         | None \<Rightarrow> \<lparr>seed_value = None, seed_type = secp256k1\<rparr>)
      else if length s = 32 \<and> list_all is_hex s
        then \<lparr>seed_value = Some (nat_of_hex s), seed_type = secp256k1\<rparr>
      else if length (take 16 (sha512 ext (map of_char s))) = 16
        then \<lparr>seed_value = Some (nat_of_bytes (take 16 (sha512 ext (map of_char s)))),
              seed_type = secp256k1\<rparr>
      else \<lparr>seed_value = None, seed_type = secp256k1\<rparr>)
   \<and> Seed_from_json ext SJ_not_a_string = \<lparr>seed_value = None, seed_type = secp256k1\<rparr>
   \<and> \<not> Seed_is_valid (Seed_from_json ext (SJ_string []))
   \<and> \<not> Seed_is_valid (Seed_from_json ext SJ_not_a_string)"
proof -
  have s_hex: "hd s = CHR ''s'' \<Longrightarrow> s \<noteq> [] \<Longrightarrow> \<not> list_all is_hex s"
    using hex_not_s [of "hd s"] by (cases s) auto
  show ?thesis
    using s_hex
    by (auto simp: Seed_from_json_def Seed_parse_json_def Let_def Seed_parse_base58_def
        Seed_parse_hex_def Seed_parse_passphrase_def Seed_parse_bytes_def Seed_is_valid_def
        new_Seed_def split: option.splits)
qed

theorem Seed_from_json_order_witness:
  "Seed_from_json example_seed_env (SJ_string ''sEd'') = \<lparr>seed_value = Some 258, seed_type = ed25519\<rparr>
   \<and> Seed_from_json example_seed_env (SJ_string ''sBad'') = \<lparr>seed_value = None, seed_type = secp256k1\<rparr>
   \<and> Seed_from_json example_seed_env (SJ_string ''000102030405060708090A0B0C0D0E0F'')
       = \<lparr>seed_value = Some 5233100606242806050955395731361295, seed_type = secp256k1\<rparr>
   \<and> Seed_is_valid (Seed_from_json example_seed_env (SJ_string ''masterpassphrase''))"
  using Seed_from_json_order [of example_seed_env "''sEd''"]
    Seed_from_json_order [of example_seed_env "''sBad''"]
    Seed_from_json_order [of example_seed_env "''000102030405060708090A0B0C0D0E0F''"]
    Seed_from_json_order [of example_seed_env "''masterpassphrase''"]
  by (simp add: example_seed_env_def nat_of_bytes_def nat_of_hex_def hex_val_def is_hex_def
      Seed_is_valid_def)


end
